theory Spec2Isabelle
  imports Complex_Main
begin

section \<open>elysia-discord: a shallow embedding\<close>

text \<open>
  The repository is a webhook plugin: a request hook that verifies and parses an inbound
  interaction (\<^verbatim>\<open>src/plugin/elysia-discord.ts\<close>), an event router
  (\<^verbatim>\<open>src/core/discord-helper.ts\<close>), a console logger and a family of error classes
  (\<^verbatim>\<open>src/errors/index.ts\<close>).

  Conventions of the embedding.
  \<^item> A JavaScript string is a \<^typ>\<open>string\<close>: one \<^typ>\<open>char\<close> stands for one code unit,
    so \<^const>\<open>length\<close> is \<^verbatim>\<open>.length\<close> and \<^const>\<open>take\<close> is \<^verbatim>\<open>substring(0, n)\<close>.
  \<^item> An exception is a value: every operation that can throw returns its outcome.
  \<^item> An awaited promise of a collaborator (the request body, the signature verifier, a
    platform call, the promise a callback returns) is given by how it settles, or by the
    fact that it never does.
  \<^item> \<^verbatim>\<open>Date.now()\<close> and \<^verbatim>\<open>Math.random()\<close> are inputs: the readings are arguments.
\<close>

subsection \<open>The console logger (class DiscordLogger)\<close>

text \<open>
  What the logger prints is kept structured. \<^verbatim>\<open>formatLog(level, color, message)\<close> adds a
  timestamp and, on a terminal, colour codes around the level tag and the message: the line
  is kept as \<open>Formatted level message\<close>. A tree line is kept with its colour, its
  connector glyph (the branch glyph of all lines but the last, the terminal glyph of the
  last) and its text.
\<close>

datatype console_fn = console_log | console_warn | console_error

datatype colour = dim | red

datatype connector = Branch | Terminal

datatype printed =
    Formatted string string
  | Tree colour connector string
  | DividerLine
  | SectionTitle string

type_synonym console = "(console_fn \<times> printed) list"

text \<open>
  A value handed to the logger is known by what the logger reads of it: whether it is truthy,
  the text \<^verbatim>\<open>JSON.stringify(value, null, 2)\<close> returns for it and, for an instance of
  \<^verbatim>\<open>Error\<close>, its message and its stack. Values for which \<^verbatim>\<open>JSON.stringify\<close> throws or
  returns \<^verbatim>\<open>undefined\<close> are outside this type: the logger has no handling for them.
\<close>

datatype js_data =
    Plain (truthy: bool) (json_text: string)
  | ErrorInstance (emessage: string) (estack: "string option") (json_text: string)

fun is_truthy :: "js_data \<Rightarrow> bool" where
  "is_truthy (Plain t s) = t"
| "is_truthy (ErrorInstance m st s) = True"

definition maxDataLength :: nat where
  "maxDataLength = 5000"

definition truncation_marker :: string where
  "truncation_marker = ''\<newline>... (truncated)''"

text \<open>\<^verbatim>\<open>s.split("\n")\<close>: the pieces between the separators; never the empty list.\<close>

fun split_on :: "char \<Rightarrow> string \<Rightarrow> string list" where
  "split_on sep [] = [[]]"
| "split_on sep (c # cs) =
     (if c = sep then [] # split_on sep cs
      else (case split_on sep cs of [] \<Rightarrow> [[c]] | l # ls \<Rightarrow> (c # l) # ls))"

text \<open>The loop \<^verbatim>\<open>lines.forEach((line, index) => ...)\<close> of \<^verbatim>\<open>logData\<close> and of the stack dump:
  \<open>n\<close> is \<^verbatim>\<open>lines.length\<close>, \<open>i\<close> the index of the first line of the list.\<close>

fun tree_lines :: "console_fn \<Rightarrow> colour \<Rightarrow> nat \<Rightarrow> nat \<Rightarrow> string list \<Rightarrow> console" where
  "tree_lines f c n i [] = []"
| "tree_lines f c n i (l # ls) =
     (f, Tree c (if i = n - 1 then Terminal else Branch) l) # tree_lines f c n (Suc i) ls"

definition logData :: "bool \<Rightarrow> string \<Rightarrow> console" where
  "logData enabled json =
     (if \<not> enabled then []
      else
        let stringified =
              (if length json > maxDataLength
               then take maxDataLength json @ truncation_marker
               else json);
            lines = split_on CHR 0x0A stringified
        in tree_lines console_log dim (length lines) 0 lines)"

definition log_with_data :: "bool \<Rightarrow> console_fn \<Rightarrow> string \<Rightarrow> string \<Rightarrow> js_data option \<Rightarrow> console" where
  "log_with_data enabled f lvl message data =
     (if \<not> enabled then []
      else (f, Formatted lvl message) #
           (case data of
              None \<Rightarrow> []
            | Some d \<Rightarrow> if is_truthy d then logData enabled (json_text d) else []))"

definition info :: "bool \<Rightarrow> string \<Rightarrow> js_data option \<Rightarrow> console" where
  "info enabled message data = log_with_data enabled console_log ''INFO'' message data"

definition success :: "bool \<Rightarrow> string \<Rightarrow> js_data option \<Rightarrow> console" where
  "success enabled message data = log_with_data enabled console_log ''SUCCESS'' message data"

definition warn :: "bool \<Rightarrow> string \<Rightarrow> js_data option \<Rightarrow> console" where
  "warn enabled message data = log_with_data enabled console_warn ''WARN'' message data"

definition debug :: "bool \<Rightarrow> string \<Rightarrow> js_data option \<Rightarrow> console" where
  "debug enabled message data = log_with_data enabled console_log ''DEBUG'' message data"

text \<open>\<^verbatim>\<open>line.trim()\<close>, on the white space and line terminators a \<^typ>\<open>char\<close> can hold.\<close>

definition is_space :: "char \<Rightarrow> bool" where
  "is_space c = (c \<in> set [CHR 0x09, CHR 0x0A, CHR 0x0B, CHR 0x0C, CHR 0x0D, CHR 0x20, CHR 0xA0])"

definition trim :: "string \<Rightarrow> string" where
  "trim s = rev (dropWhile is_space (rev (dropWhile is_space s)))"

definition error :: "bool \<Rightarrow> string \<Rightarrow> js_data option \<Rightarrow> console" where
  "error enabled message err =
     (if \<not> enabled then []
      else (console_error, Formatted ''ERROR'' message) #
           (case err of
              None \<Rightarrow> []
            | Some (ErrorInstance m st js) \<Rightarrow>
                (console_error, Tree red Branch m) #
                (case st of
                   None \<Rightarrow> []
                 | Some stack \<Rightarrow>
                     if stack = [] then []
                     else
                       let stackLines = take 3 (drop 1 (split_on CHR 0x0A stack))
                       in tree_lines console_error dim (length stackLines) 0 (map trim stackLines))
            | Some (Plain t js) \<Rightarrow> if t then logData enabled js else []))"

definition divider :: "bool \<Rightarrow> console" where
  "divider enabled = (if \<not> enabled then [] else [(console_log, DividerLine)])"

definition section_banner :: "bool \<Rightarrow> string \<Rightarrow> console" where
  "section_banner enabled title = (if \<not> enabled then [] else [(console_log, SectionTitle title)])"

text \<open>The text of a data dump, read back from the console: the tree lines that
  \<^verbatim>\<open>console.log\<close> printed, joined by line feeds.\<close>

fun dump_lines :: "console \<Rightarrow> string list" where
  "dump_lines [] = []"
| "dump_lines ((console_log, Tree c k l) # out) = l # dump_lines out"
| "dump_lines (p # out) = dump_lines out"

fun join_lines :: "string list \<Rightarrow> string" where
  "join_lines [] = []"
| "join_lines [l] = l"
| "join_lines (l # m # ls) = l @ CHR 0x0A # join_lines (m # ls)"

definition dumped_text :: "console \<Rightarrow> string" where
  "dumped_text out = join_lines (dump_lines out)"

fun connectors :: "console \<Rightarrow> connector list" where
  "connectors [] = []"
| "connectors ((f, Tree c k l) # out) = k # connectors out"
| "connectors (p # out) = connectors out"

subsection \<open>The error classes (src/errors/index.ts)\<close>

text \<open>
  An error object is a record of the fields its constructor sets; the class is kept beside
  the \<^verbatim>\<open>name\<close> string so that \<^verbatim>\<open>instanceof\<close> can be asked.
\<close>

datatype error_class =
    DiscordError
  | SignatureVerificationError
  | DiscordInteractionError
  | RateLimitError
  | ConfigurationError
  | InteractionNotRepliableError

record discord_error =
  e_class :: error_class
  e_name :: string
  e_message :: string
  e_code :: "string option"
  e_interactionId :: "string option"
  e_interactionType :: "string option"
  e_field :: "string option"
  e_retryAfter :: "nat option"

definition new_DiscordError :: "string \<Rightarrow> string option \<Rightarrow> discord_error" where
  "new_DiscordError msg cd =
     \<lparr>e_class = DiscordError, e_name = ''DiscordError'', e_message = msg, e_code = cd,
      e_interactionId = None, e_interactionType = None, e_field = None, e_retryAfter = None\<rparr>"

definition new_DiscordInteractionError ::
  "string \<Rightarrow> string option \<Rightarrow> string option \<Rightarrow> discord_error" where
  "new_DiscordInteractionError msg interaction_id interaction_type =
     (new_DiscordError msg (Some ''INTERACTION_ERROR''))
       \<lparr>e_class := DiscordInteractionError, e_name := ''DiscordInteractionError'',
        e_interactionId := interaction_id, e_interactionType := interaction_type\<rparr>"

definition new_ConfigurationError :: "string \<Rightarrow> string option \<Rightarrow> discord_error" where
  "new_ConfigurationError msg fld =
     (new_DiscordError msg (Some ''INVALID_CONFIGURATION''))
       \<lparr>e_class := ConfigurationError, e_name := ''ConfigurationError'', e_field := fld\<rparr>"

text \<open>\<^verbatim>\<open>x || "unknown"\<close> on an optional string: the empty string is falsy too.\<close>

definition or_unknown :: "string option \<Rightarrow> string" where
  "or_unknown x = (case x of None \<Rightarrow> ''unknown'' | Some s \<Rightarrow> if s = [] then ''unknown'' else s)"

definition new_InteractionNotRepliableError :: "string option \<Rightarrow> discord_error" where
  "new_InteractionNotRepliableError interaction_type =
     (new_DiscordInteractionError
        (''Interaction of type \"'' @ or_unknown interaction_type @ ''\" is not repliable'')
        None interaction_type)
       \<lparr>e_class := InteractionNotRepliableError, e_name := ''InteractionNotRepliableError''\<rparr>"

text \<open>The \<^verbatim>\<open>extends\<close> clauses: a class followed by its ancestors; \<^verbatim>\<open>instanceof\<close>
  asks membership in that chain.\<close>

fun class_chain :: "error_class \<Rightarrow> error_class list" where
  "class_chain DiscordError = [DiscordError]"
| "class_chain SignatureVerificationError = [SignatureVerificationError, DiscordError]"
| "class_chain DiscordInteractionError = [DiscordInteractionError, DiscordError]"
| "class_chain RateLimitError = [RateLimitError, DiscordError]"
| "class_chain ConfigurationError = [ConfigurationError, DiscordError]"
| "class_chain InteractionNotRepliableError =
     [InteractionNotRepliableError, DiscordInteractionError, DiscordError]"

definition instanceof :: "discord_error \<Rightarrow> error_class \<Rightarrow> bool" where
  "instanceof e c = (c \<in> set (class_chain (e_class e)))"

subsection \<open>Plugin construction (function discord, src/plugin/elysia-discord.ts)\<close>

text \<open>
  \<^verbatim>\<open>DiscordOptions\<close>. The three required fields are strings by their declared type; the
  constructor tests them with \<^verbatim>\<open>!field\<close>, so an absent field (\<open>None\<close>) and the empty string
  are both refused. \<^verbatim>\<open>verbose\<close> is optional.
\<close>

record DiscordOptions =
  publicKey :: "string option"
  botToken :: "string option"
  applicationId :: "string option"
  verbose :: "bool option"

definition absent_or_empty :: "string option \<Rightarrow> bool" where
  "absent_or_empty x = (case x of None \<Rightarrow> True | Some s \<Rightarrow> s = [])"

text \<open>The plugin instance: the validated configuration the hooks close over, and the
  logger's flag (\<^verbatim>\<open>new DiscordLogger(verbose)\<close>).\<close>

record plugin =
  p_publicKey :: string
  p_botToken :: string
  p_applicationId :: string
  p_logger :: bool

definition discord :: "DiscordOptions \<Rightarrow> discord_error + plugin" where
  "discord options =
     (case publicKey options of
        None \<Rightarrow> Inl (new_ConfigurationError
                 ''publicKey is required. Get it from Discord Developer Portal.'' (Some ''publicKey''))
      | Some pk \<Rightarrow>
     if pk = [] then Inl (new_ConfigurationError
                 ''publicKey is required. Get it from Discord Developer Portal.'' (Some ''publicKey''))
     else
     (case botToken options of
        None \<Rightarrow> Inl (new_ConfigurationError
                 ''botToken is required. Get it from Discord Developer Portal.'' (Some ''botToken''))
      | Some bt \<Rightarrow>
     if bt = [] then Inl (new_ConfigurationError
                 ''botToken is required. Get it from Discord Developer Portal.'' (Some ''botToken''))
     else
     (case applicationId options of
        None \<Rightarrow> Inl (new_ConfigurationError
                 ''applicationId is required. Get it from Discord Developer Portal.''
                 (Some ''applicationId''))
      | Some app \<Rightarrow>
     if app = [] then Inl (new_ConfigurationError
                 ''applicationId is required. Get it from Discord Developer Portal.''
                 (Some ''applicationId''))
     else
       Inr \<lparr>p_publicKey = pk, p_botToken = bt, p_applicationId = app,
            p_logger = (case verbose options of None \<Rightarrow> False | Some v \<Rightarrow> v)\<rparr>)))"

subsection \<open>Values of the host language\<close>

text \<open>
  A parsed JSON value. The members of an object are kept in the order of the text; a
  property read takes the last member of that name, as \<^verbatim>\<open>JSON.parse\<close> keeps the last
  duplicate.
\<close>

datatype json =
    JNull
  | JBool bool
  | JNum real
  | JStr string
  | JArr "json list"
  | JObj "(string \<times> json) list"

text \<open>An object literal the code builds: a property may hold \<^verbatim>\<open>undefined\<close> (\<open>None\<close>).\<close>

type_synonym js_object = "(string \<times> json option) list"

text \<open>A value some collaborator threw or rejected with: an \<^verbatim>\<open>Error\<close> with its message, or
  any other value with the text \<^verbatim>\<open>String(e)\<close> gives.\<close>

datatype thrown = Error_object string | Other_value string

text \<open>\<^verbatim>\<open>e instanceof Error ? e.message : String(e)\<close>\<close>

fun describe :: "thrown \<Rightarrow> string" where
  "describe (Error_object m) = m"
| "describe (Other_value s) = s"

datatype 'a awaited = Fulfils 'a | Rejects thrown | Never

text \<open>\<^verbatim>\<open>value.prop\<close>: reading a property of \<^verbatim>\<open>null\<close> throws a TypeError (the text of its
  message is the engine's); a property that is not there reads as \<^verbatim>\<open>undefined\<close>.\<close>

fun get_prop :: "json \<Rightarrow> string \<Rightarrow> thrown + json option" where
  "get_prop JNull k = Inl (Error_object (''Cannot read properties of null (reading '' @ k @ '')''))"
| "get_prop (JObj members) k = Inr (map_of (rev members) k)"
| "get_prop v k = Inr None"

fun js_truthy :: "json \<Rightarrow> bool" where
  "js_truthy JNull = False"
| "js_truthy (JBool b) = b"
| "js_truthy (JNum x) = (x \<noteq> 0)"
| "js_truthy (JStr s) = (s \<noteq> [])"
| "js_truthy (JArr xs) = True"
| "js_truthy (JObj members) = True"

text \<open>Template strings print integers in decimal.\<close>

function show_nat :: "nat \<Rightarrow> string" where
  "show_nat n =
     (if n < 10 then [''0123456789'' ! n]
      else show_nat (n div 10) @ [''0123456789'' ! (n mod 10)])"
  by pat_completeness auto
termination
  by (relation "measure id") auto

declare show_nat.simps [simp del]

definition show_int :: "int \<Rightarrow> string" where
  "show_int k = (if k < 0 then CHR ''-'' # show_nat (nat (- k)) else show_nat (nat k))"

subsection \<open>The event router (class DiscordHelper, src/core/discord-helper.ts)\<close>

text \<open>
  An \<^verbatim>\<open>Interaction\<close> is an object of the platform's client library. The router reads its
  \<^verbatim>\<open>id\<close> and \<^verbatim>\<open>type\<close> and asks its type guards; the record holds the answers.
  Its four response methods are a separate argument of the operations that call them.
\<close>

record Interaction =
  iid :: string
  itype :: nat
  isRepliable :: bool
  isChatInputCommand :: bool
  isButton :: bool
  isStringSelectMenu :: bool
  isUserSelectMenu :: bool
  isRoleSelectMenu :: bool
  isChannelSelectMenu :: bool
  isModalSubmit :: bool
  isAutocomplete :: bool

text \<open>\<^verbatim>\<open>InteractionType[n]\<close>: the reverse mapping of the library's numeric enum;
  \<^verbatim>\<open>undefined\<close> for a number that is no member.\<close>

definition InteractionType :: "nat \<Rightarrow> string option" where
  "InteractionType n =
     (if n = 1 then Some ''Ping''
      else if n = 2 then Some ''ApplicationCommand''
      else if n = 3 then Some ''MessageComponent''
      else if n = 4 then Some ''ApplicationCommandAutocomplete''
      else if n = 5 then Some ''ModalSubmit''
      else None)"

text \<open>The keys of \<^verbatim>\<open>InteractionEventMap\<close>.\<close>

datatype event_key = Command | Button | Select | Modal | Autocomplete | Wildcard

fun key_name :: "event_key \<Rightarrow> string" where
  "key_name Command = ''command''"
| "key_name Button = ''button''"
| "key_name Select = ''select''"
| "key_name Modal = ''modal''"
| "key_name Autocomplete = ''autocomplete''"
| "key_name Wildcard = ''*''"

text \<open>
  A callback has the type \<^verbatim>\<open>(interaction) => void | Promise<void>\<close>. Calling it either throws,
  or returns: \<^verbatim>\<open>undefined\<close> (\<open>None\<close>) or a promise. A promise fulfils, or rejects (at some
  tick of the clock of the event loop, which orders the rejections), or stays pending.
  What else a callback does (it may call the router's reply operations) is not part of the
  call's result.
\<close>

datatype promise = Fulfilled | Rejected_at nat thrown | Pending

datatype callback_result = Throws thrown | Returns "promise option"

type_synonym callback = "Interaction \<Rightarrow> callback_result"

text \<open>What an operation does besides returning: its calls of the logger, of the registered
  callbacks, of the interaction's response methods and of the hook's collaborators, in
  order.\<close>

datatype logger_method = m_info | m_success | m_warn | m_error | m_debug | m_section | m_divider

datatype log_data = Fields js_object | Payload json | Caught thrown

datatype platform_method = p_reply | p_deferReply | p_editReply | p_followUp

datatype event =
    Logger_call logger_method string "log_data option"
  | Invoked callback
  | Platform_call platform_method js_object
  | Read_body
  | Verify_key string string string string
  | Parse_json string

text \<open>The response record: \<^verbatim>\<open>{ type: n, data: ... }\<close>.\<close>

record response_record =
  r_type :: nat
  r_data :: "js_object option"

record 'i DiscordHelper =
  rest_token :: string
  interaction :: "'i option"
  handlers :: "event_key \<rightharpoonup> callback list"
  logger :: bool
  helper_applicationId :: string
  response :: "response_record option"

definition new_DiscordHelper :: "string \<Rightarrow> string \<Rightarrow> 'i option \<Rightarrow> bool \<Rightarrow> 'i DiscordHelper" where
  "new_DiscordHelper bot_token application_id held lg =
     \<lparr>rest_token = bot_token, interaction = held, handlers = Map.empty, logger = lg,
      helper_applicationId = application_id, response = None\<rparr>"

text \<open>\<^verbatim>\<open>on(interactionType, handler)\<close>: returns the router (for chaining).\<close>

definition on :: "'i DiscordHelper \<Rightarrow> event_key \<Rightarrow> callback \<Rightarrow> 'i DiscordHelper \<times> event list" where
  "on h k f =
     (let m = (if handlers h k = None then (handlers h)(k \<mapsto> []) else handlers h);
          m' = (case m k of None \<Rightarrow> m | Some fs \<Rightarrow> m(k \<mapsto> fs @ [f]))
      in (h\<lparr>handlers := m'\<rparr>,
          [Logger_call m_debug ''Handler registered''
             (Some (Fields [(''interactionType'', Some (JStr (key_name k)))]))]))"

text \<open>\<^verbatim>\<open>this.handlers.get(key) || []\<close>\<close>

definition registered :: "'i DiscordHelper \<Rightarrow> event_key \<Rightarrow> callback list" where
  "registered h k = (case handlers h k of None \<Rightarrow> [] | Some fs \<Rightarrow> fs)"

text \<open>
  The loop \<^verbatim>\<open>for (const handler of hs) promises.push(handler(interaction))\<close>: the calls made,
  the values pushed, and the exception that ended the loop if a callback threw.
\<close>

fun invoke_all :: "callback list \<Rightarrow> Interaction \<Rightarrow> event list \<times> promise option list \<times> thrown option" where
  "invoke_all [] i = ([], [], None)"
| "invoke_all (f # fs) i =
     (case f i of
        Throws e \<Rightarrow> ([Invoked f], [], Some e)
      | Returns v \<Rightarrow> (case invoke_all fs i of (ev, vs, x) \<Rightarrow> (Invoked f # ev, v # vs, x)))"

text \<open>The chain of type guards that picks \<^verbatim>\<open>handlerKey\<close>.\<close>

definition handlerKey :: "Interaction \<Rightarrow> event_key option" where
  "handlerKey i =
     (if isChatInputCommand i then Some Command
      else if isButton i then Some Button
      else if isStringSelectMenu i \<or> isUserSelectMenu i \<or> isRoleSelectMenu i \<or> isChannelSelectMenu i
           then Some Select
      else if isModalSubmit i then Some Modal
      else if isAutocomplete i then Some Autocomplete
      else None)"

text \<open>
  \<^verbatim>\<open>Promise.all\<close> over the pushed values: it rejects as soon as one promise rejects, with the
  reason of the earliest rejection (the leftmost of those at the same tick); it fulfils when
  every promise has fulfilled (a value that is no promise counts as fulfilled); otherwise it
  stays pending.
\<close>

fun first_rejection :: "promise option list \<Rightarrow> (nat \<times> thrown) option" where
  "first_rejection [] = None"
| "first_rejection (Some (Rejected_at t e) # vs) =
     (case first_rejection vs of
        None \<Rightarrow> Some (t, e)
      | Some (t', e') \<Rightarrow> if t' < t then Some (t', e') else Some (t, e))"
| "first_rejection (v # vs) = first_rejection vs"

definition Promise_all :: "promise option list \<Rightarrow> promise" where
  "Promise_all vs =
     (case first_rejection vs of
        Some (t, e) \<Rightarrow> Rejected_at t e
      | None \<Rightarrow> if Some Pending \<in> set vs then Pending else Fulfilled)"

text \<open>How the promise of an \<^verbatim>\<open>async\<close> method settles.\<close>

datatype 'e settled = Resolves | Rejects_with 'e | Stays_pending

text \<open>
  \<^verbatim>\<open>handle()\<close>. \<open>t0\<close> and \<open>t1\<close> are the readings of \<^verbatim>\<open>Date.now()\<close> at the start and where
  the duration is taken.
\<close>

definition handle :: "Interaction DiscordHelper \<Rightarrow> int \<Rightarrow> int \<Rightarrow> event list \<times> thrown settled" where
  "handle h t0 t1 =
     (case interaction h of
        None \<Rightarrow> ([Logger_call m_warn ''No interaction to handle'' None], Resolves)
      | Some i \<Rightarrow>
        let ev0 = [Logger_call m_section ''Interaction Handler Execution'' None,
                   Logger_call m_info (''Processing interaction type: '' @ show_nat (itype i)) None];
            wildcardHandlers = registered h Wildcard
        in (case invoke_all wildcardHandlers i of
              (ev1, vs1, Some e) \<Rightarrow> (ev0 @ ev1, Rejects_with e)
            | (ev1, vs1, None) \<Rightarrow>
              let hs = (case handlerKey i of None \<Rightarrow> [] | Some k \<Rightarrow> registered h k);
                  ev2 = (case handlerKey i of
                           None \<Rightarrow> []
                         | Some k \<Rightarrow>
                             if length hs > 0
                             then [Logger_call m_debug
                                     (''Executing '' @ show_nat (length hs) @ '' handler(s) for '' @ key_name k)
                                     None]
                             else []);
                  totalHandlers = length wildcardHandlers + length hs
              in (case invoke_all hs i of
                    (ev3, vs2, Some e) \<Rightarrow> (ev0 @ ev1 @ ev2 @ ev3, Rejects_with e)
                  | (ev3, vs2, None) \<Rightarrow>
                    (case Promise_all (vs1 @ vs2) of
                       Fulfilled \<Rightarrow>
                         (ev0 @ ev1 @ ev2 @ ev3 @
                          [Logger_call m_success ''All handlers completed successfully''
                             (Some (Fields [(''totalHandlers'', Some (JNum (real totalHandlers))),
                                            (''duration'', Some (JStr (show_int (t1 - t0) @ ''ms'')))]))],
                          Resolves)
                     | Rejected_at t e \<Rightarrow>
                         (ev0 @ ev1 @ ev2 @ ev3 @
                          [Logger_call m_error
                             (''Handler execution failed after '' @ show_int (t1 - t0) @ ''ms'')
                             (Some (Caught e))],
                          Rejects_with e)
                     | Pending \<Rightarrow> (ev0 @ ev1 @ ev2 @ ev3, Stays_pending)))))"

text \<open>The callbacks a run called, in order.\<close>

fun invoked :: "event list \<Rightarrow> callback list" where
  "invoked [] = []"
| "invoked (Invoked f # ev) = f # invoked ev"
| "invoked (x # ev) = invoked ev"

text \<open>The callbacks \<^verbatim>\<open>handle\<close> collects for an interaction: the wildcard ones, then those of
  the key the type guards pick.\<close>

definition collected :: "Interaction DiscordHelper \<Rightarrow> Interaction \<Rightarrow> callback list" where
  "collected h i =
     registered h Wildcard @ (case handlerKey i of None \<Rightarrow> [] | Some k \<Rightarrow> registered h k)"

text \<open>How one callback behaves on an interaction.\<close>

definition throws_sync :: "callback \<Rightarrow> Interaction \<Rightarrow> bool" where
  "throws_sync f i = (case f i of Throws e \<Rightarrow> True | Returns v \<Rightarrow> False)"

definition rejects :: "callback \<Rightarrow> Interaction \<Rightarrow> bool" where
  "rejects f i = (case f i of Returns (Some (Rejected_at t e)) \<Rightarrow> True | other \<Rightarrow> False)"

definition settles_well :: "callback \<Rightarrow> Interaction \<Rightarrow> bool" where
  "settles_well f i = (f i = Returns None \<or> f i = Returns (Some Fulfilled))"

text \<open>The calls of one logger method in a run: message and attached data.\<close>

fun logger_calls :: "logger_method \<Rightarrow> event list \<Rightarrow> (string \<times> log_data option) list" where
  "logger_calls lm [] = []"
| "logger_calls lm (Logger_call lm' msg d # ev) =
     (if lm' = lm then (msg, d) # logger_calls lm ev else logger_calls lm ev)"
| "logger_calls lm (x # ev) = logger_calls lm ev"

text \<open>The two entries \<^verbatim>\<open>handle\<close> closes with: the one of the success path, with the handler
  count and the duration, and the one of the \<^verbatim>\<open>catch\<close> block.\<close>

definition success_entry :: "nat \<Rightarrow> int \<Rightarrow> int \<Rightarrow> string \<times> log_data option" where
  "success_entry n t0 t1 =
     (''All handlers completed successfully'',
      Some (Fields [(''totalHandlers'', Some (JNum (real n))),
                    (''duration'', Some (JStr (show_int (t1 - t0) @ ''ms'')))]))"

definition failure_entry :: "thrown \<Rightarrow> int \<Rightarrow> int \<Rightarrow> string \<times> log_data option" where
  "failure_entry e t0 t1 =
     (''Handler execution failed after '' @ show_int (t1 - t0) @ ''ms'', Some (Caught e))"

subsection \<open>The reply operations of the router\<close>

text \<open>The message argument \<^verbatim>\<open>{ content?, embeds?, ephemeral? }\<close> and the options of
  \<^verbatim>\<open>deferReply\<close>; \<open>None\<close> is an omitted property.\<close>

datatype message = Message (content: "string option") (embeds: "json list option") (ephemeral: "bool option")

datatype defer_options = Options (opt_ephemeral: "bool option")

definition message_object :: "message \<Rightarrow> js_object" where
  "message_object m =
     [(''content'', map_option JStr (content m)),
      (''embeds'', map_option JArr (embeds m)),
      (''ephemeral'', map_option JBool (ephemeral m))]"

definition options_object :: "defer_options \<Rightarrow> js_object" where
  "options_object opts = [(''ephemeral'', map_option JBool (opt_ephemeral opts))]"

text \<open>\<^verbatim>\<open>(message.embeds?.length || 0) > 0\<close> and \<^verbatim>\<open>flag || false\<close>\<close>

text \<open>The argument objects of \<^verbatim>\<open>interaction.editReply\<close> and \<^verbatim>\<open>interaction.deferReply\<close>.\<close>

definition edit_object :: "message \<Rightarrow> js_object" where
  "edit_object m =
     [(''content'', map_option JStr (content m)), (''embeds'', map_option JArr (embeds m))]"

definition defer_object :: "defer_options option \<Rightarrow> js_object" where
  "defer_object opts =
     [(''ephemeral'', (case opts of None \<Rightarrow> None | Some os \<Rightarrow> map_option JBool (opt_ephemeral os)))]"

definition hasEmbeds :: "message \<Rightarrow> bool" where
  "hasEmbeds m = (case embeds m of None \<Rightarrow> False | Some es \<Rightarrow> length es > 0)"

definition or_false :: "bool option \<Rightarrow> bool" where
  "or_false b = (case b of None \<Rightarrow> False | Some v \<Rightarrow> v)"

text \<open>How an operation of the router ends: it returns, it throws one of the error objects,
  or the platform call it awaits never settles.\<close>

datatype outcome = Returned | Raised discord_error | Hangs

text \<open>The response methods of the interaction: how the promise of each call settles. A
  method that throws before it returns a promise is caught by the same \<^verbatim>\<open>try\<close>, so it is
  \<open>Rejects\<close> here.\<close>

type_synonym platform = "platform_method \<Rightarrow> js_object \<Rightarrow> unit awaited"

text \<open>The two error objects the operations throw.\<close>

definition not_repliable_error :: "Interaction \<Rightarrow> discord_error" where
  "not_repliable_error i = new_InteractionNotRepliableError (InteractionType (itype i))"

definition platform_failure :: "string \<Rightarrow> thrown \<Rightarrow> Interaction \<Rightarrow> discord_error" where
  "platform_failure fail_text e i =
     new_DiscordInteractionError (fail_text @ '': '' @ describe e)
       (Some (iid i)) (InteractionType (itype i))"

text \<open>The part the four operations share after the replyability test: the platform call in
  its \<^verbatim>\<open>try\<close> block. \<open>descriptor\<close> is the response record the operation stores on success
  (\<open>None\<close> when it stores none).\<close>

definition platform_try ::
  "'i DiscordHelper \<Rightarrow> Interaction \<Rightarrow> platform \<Rightarrow> platform_method \<Rightarrow> js_object \<Rightarrow>
   response_record option \<Rightarrow> string \<Rightarrow> string \<Rightarrow> int \<Rightarrow> int \<Rightarrow>
   'i DiscordHelper \<times> event list \<times> outcome" where
  "platform_try h i pf meth args descriptor done_text fail_text t0 t1 =
     (case pf meth args of
        Fulfils u \<Rightarrow>
          ((case descriptor of None \<Rightarrow> h | Some d \<Rightarrow> h\<lparr>response := Some d\<rparr>),
           [Platform_call meth args,
            Logger_call m_success (done_text @ '' ('' @ show_int (t1 - t0) @ ''ms)'') None],
           Returned)
      | Rejects e \<Rightarrow>
          let err = platform_failure fail_text e i
          in (h, [Platform_call meth args, Logger_call m_error (e_message err) (Some (Caught e))],
              Raised err)
      | Never \<Rightarrow> (h, [Platform_call meth args], Hangs))"

text \<open>The guard the four operations open with.\<close>

definition not_repliable :: "'i DiscordHelper \<Rightarrow> Interaction \<Rightarrow> 'i DiscordHelper \<times> event list \<times> outcome" where
  "not_repliable h i =
     (let err = not_repliable_error i
      in (h, [Logger_call m_error (e_message err) None], Raised err))"

definition with_events :: "event list \<Rightarrow> 'h \<times> event list \<times> outcome \<Rightarrow> 'h \<times> event list \<times> outcome" where
  "with_events ev r = (case r of (h, ev', out) \<Rightarrow> (h, ev @ ev', out))"

definition reply ::
  "'i DiscordHelper \<Rightarrow> Interaction \<Rightarrow> message \<Rightarrow> platform \<Rightarrow> int \<Rightarrow> int \<Rightarrow>
   'i DiscordHelper \<times> event list \<times> outcome" where
  "reply h i m pf t0 t1 =
     (if \<not> isRepliable i then not_repliable h i
      else with_events
        [Logger_call m_info ''Sending reply''
           (Some (Fields [(''ephemeral'', Some (JBool (or_false (ephemeral m)))),
                          (''hasEmbeds'', Some (JBool (hasEmbeds m)))])),
         Logger_call m_debug ''Reply message content'' (Some (Fields (message_object m)))]
        (platform_try h i pf p_reply (message_object m)
           (Some \<lparr>r_type = 4, r_data = Some (message_object m)\<rparr>)
           ''Reply sent successfully'' ''Failed to send reply'' t0 t1))"

definition deferReply ::
  "'i DiscordHelper \<Rightarrow> Interaction \<Rightarrow> defer_options option \<Rightarrow> platform \<Rightarrow> int \<Rightarrow> int \<Rightarrow>
   'i DiscordHelper \<times> event list \<times> outcome" where
  "deferReply h i opts pf t0 t1 =
     (if \<not> isRepliable i then not_repliable h i
      else with_events
        [Logger_call m_info ''Deferring reply''
           (Some (Fields [(''ephemeral'',
              Some (JBool (or_false (case opts of None \<Rightarrow> None | Some os \<Rightarrow> opt_ephemeral os))))]))]
        (platform_try h i pf p_deferReply (defer_object opts)
           (Some \<lparr>r_type = 5, r_data = map_option options_object opts\<rparr>)
           ''Reply deferred successfully'' ''Failed to defer reply'' t0 t1))"

definition editReply ::
  "'i DiscordHelper \<Rightarrow> Interaction \<Rightarrow> message \<Rightarrow> platform \<Rightarrow> int \<Rightarrow> int \<Rightarrow>
   'i DiscordHelper \<times> event list \<times> outcome" where
  "editReply h i m pf t0 t1 =
     (if \<not> isRepliable i then not_repliable h i
      else with_events
        [Logger_call m_info ''Editing reply''
           (Some (Fields [(''hasEmbeds'', Some (JBool (hasEmbeds m)))])),
         Logger_call m_debug ''Edit message content'' (Some (Fields (message_object m)))]
        (platform_try h i pf p_editReply (edit_object m)
           None
           ''Reply edited successfully'' ''Failed to edit reply'' t0 t1))"

definition followUp ::
  "'i DiscordHelper \<Rightarrow> Interaction \<Rightarrow> message \<Rightarrow> platform \<Rightarrow> int \<Rightarrow> int \<Rightarrow>
   'i DiscordHelper \<times> event list \<times> outcome" where
  "followUp h i m pf t0 t1 =
     (if \<not> isRepliable i then not_repliable h i
      else with_events
        [Logger_call m_info ''Sending follow-up''
           (Some (Fields [(''ephemeral'', Some (JBool (or_false (ephemeral m)))),
                          (''hasEmbeds'', Some (JBool (hasEmbeds m)))])),
         Logger_call m_debug ''Follow-up message content'' (Some (Fields (message_object m)))]
        (platform_try h i pf p_followUp (message_object m)
           None
           ''Follow-up sent successfully'' ''Failed to send follow-up'' t0 t1))"

text \<open>The platform calls a run made.\<close>

fun platform_calls :: "event list \<Rightarrow> (platform_method \<times> js_object) list" where
  "platform_calls [] = []"
| "platform_calls (Platform_call pm args # ev) = (pm, args) # platform_calls ev"
| "platform_calls (x # ev) = platform_calls ev"

subsection \<open>The webhook hook (onRequest) and the derive stage\<close>

text \<open>
  A request, as far as the hook reads it: the method, the headers
  (\<^verbatim>\<open>request.headers.get(name)\<close>, \<open>None\<close> for \<^verbatim>\<open>null\<close>) and how \<^verbatim>\<open>request.text()\<close> settles.
\<close>

record request =
  req_method :: string
  req_headers :: "string \<rightharpoonup> string"
  req_text :: "string awaited"

text \<open>The two collaborators of the hook: \<^verbatim>\<open>verifyKey\<close> of the signature library (a call
  that throws is \<open>Rejects\<close>: the wrapper awaits it inside \<^verbatim>\<open>try\<close>) and \<^verbatim>\<open>JSON.parse\<close>.\<close>

record collaborators =
  verifyKey :: "string \<Rightarrow> string \<Rightarrow> string \<Rightarrow> string \<Rightarrow> bool awaited"
  JSON_parse :: "string \<Rightarrow> thrown + json"

text \<open>The store of the application: \<^verbatim>\<open>store["discord-interaction"]\<close> and
  \<^verbatim>\<open>store["discord-response"]\<close>, both \<^verbatim>\<open>null\<close> (\<open>None\<close>) at first.\<close>

record store =
  discord_interaction :: "json option"
  discord_response :: "json option"

definition initial_store :: store where
  "initial_store = \<lparr>discord_interaction = None, discord_response = None\<rparr>"

text \<open>What the hook answers: \<^verbatim>\<open>set.status\<close> and the returned body.\<close>

record http_response =
  status :: nat
  body :: json

datatype hook_result = Responded http_response | Continue | No_answer

definition error_body :: "string \<Rightarrow> json" where
  "error_body msg = JObj [(''error'', JStr msg)]"

text \<open>\<^verbatim>\<open>verifyDiscordSignature\<close>: \<open>None\<close> when the awaited call never settles.\<close>

definition verifyDiscordSignature ::
  "collaborators \<Rightarrow> string \<Rightarrow> string \<Rightarrow> string \<Rightarrow> string \<Rightarrow> bool option" where
  "verifyDiscordSignature env body_text signature timestamp public_key =
     (case verifyKey env body_text signature timestamp public_key of
        Fulfils b \<Rightarrow> Some b
      | Rejects e \<Rightarrow> Some False
      | Never \<Rightarrow> None)"

text \<open>\<^verbatim>\<open>!header\<close>: \<^verbatim>\<open>null\<close> and the empty string are falsy.\<close>

definition header_missing :: "string option \<Rightarrow> bool" where
  "header_missing v = (case v of None \<Rightarrow> True | Some s \<Rightarrow> s = [])"

text \<open>The \<^verbatim>\<open>try\<close> block that parses the verified body. It answers the PING, or stores the
  payload; whatever is thrown inside it is answered with 400.\<close>

definition parse_and_store ::
  "collaborators \<Rightarrow> string \<Rightarrow> store \<Rightarrow> hook_result \<times> store \<times> event list" where
  "parse_and_store env body_text st =
     (let bad = (\<lambda>e ev. (Responded \<lparr>status = 400, body = error_body ''Invalid JSON body''\<rparr>, st,
                          ev @ [Logger_call m_error ''Failed to parse JSON body'' (Some (Caught e))]))
      in case JSON_parse env body_text of
           Inl e \<Rightarrow> bad e [Parse_json body_text]
         | Inr payload \<Rightarrow>
           (case get_prop payload ''type'' of
              Inl e \<Rightarrow> bad e [Parse_json body_text]
            | Inr ty \<Rightarrow>
              (case get_prop payload ''id'' of
                 Inl e \<Rightarrow> bad e [Parse_json body_text]
               | Inr ident \<Rightarrow>
                 let ev = [Parse_json body_text,
                           Logger_call m_info ''Discord interaction parsed''
                             (Some (Fields [(''type'', ty), (''id'', ident)])),
                           Logger_call m_debug ''Full interaction payload'' (Some (Payload payload))]
                 in if ty = Some (JNum 1)
                    then (Responded \<lparr>status = 200, body = JObj [(''type'', JNum 1)]\<rparr>, st,
                          ev @ [Logger_call m_info ''Responding to Discord PING'' None])
                    else (Continue, st\<lparr>discord_interaction := Some payload\<rparr>,
                          ev @ [Logger_call m_success ''Request processed successfully'' None,
                                Logger_call m_divider [] None]))))"

text \<open>
  The hook. \<open>pk\<close> is the configured public key, \<open>rid\<close> the random request id of the banner.
  It returns its answer, the store it leaves and what it did.
\<close>

definition onRequest ::
  "string \<Rightarrow> collaborators \<Rightarrow> string \<Rightarrow> request \<Rightarrow> store \<Rightarrow> hook_result \<times> store \<times> event list" where
  "onRequest pk env rid req st =
     (if req_method req \<noteq> ''POST'' then (Continue, st, [])
      else
        let ev0 = [Logger_call m_section (''Discord Interaction ['' @ rid @ '']'') None];
            signature = req_headers req ''x-signature-ed25519'';
            timestamp = req_headers req ''x-signature-timestamp''
        in if header_missing signature \<or> header_missing timestamp
           then (Responded \<lparr>status = 401, body = error_body ''Missing signature headers''\<rparr>, st,
                 ev0 @ [Logger_call m_warn ''Request ignored: Missing Discord signature headers'' None])
           else
             (case (signature, timestamp) of
                (Some sg, Some ts) \<Rightarrow>
                  let ev1 = ev0 @ [Logger_call m_info ''Signature verification started'' None, Read_body]
                  in (case req_text req of
                        Never \<Rightarrow> (No_answer, st, ev1)
                      | Rejects e \<Rightarrow>
                          (Responded \<lparr>status = 400, body = error_body ''Failed to read request body''\<rparr>, st,
                           ev1 @ [Logger_call m_error ''Failed to read request body'' (Some (Caught e))])
                      | Fulfils body_text \<Rightarrow>
                          let ev2 = ev1 @
                                [Logger_call m_debug ''Request body received''
                                   (Some (Fields
                                      [(''contentLength'', Some (JNum (real (length body_text)))),
                                       (''contentType'',
                                        Some (case req_headers req ''content-type'' of
                                                None \<Rightarrow> JNull | Some ct \<Rightarrow> JStr ct))])),
                                 Verify_key body_text sg ts pk]
                          in (case verifyDiscordSignature env body_text sg ts pk of
                                None \<Rightarrow> (No_answer, st, ev2)
                              | Some isValid \<Rightarrow>
                                  if \<not> isValid
                                  then (Responded \<lparr>status = 401, body = error_body ''Invalid signature''\<rparr>, st,
                                        ev2 @ [Logger_call m_error ''Signature verification failed''
                                                 (Some (Fields
                                                    [(''signatureLength'', Some (JNum (real (length sg)))),
                                                     (''timestampLength'', Some (JNum (real (length ts))))]))])
                                  else
                                    (case parse_and_store env body_text st of
                                       (res, st', ev3) \<Rightarrow>
                                         (res, st',
                                          ev2 @ [Logger_call m_success ''Signature verified'' None] @ ev3))))
              | other \<Rightarrow> (Continue, st, ev0)))"

text \<open>
  The derive stage: it reads the store and builds a router when an interaction is there
  (\<^verbatim>\<open>if (!interaction)\<close> is a truthiness test of the stored value). The router is built
  with the stored payload as it is.
\<close>

definition derive :: "plugin \<Rightarrow> store \<Rightarrow> json DiscordHelper option" where
  "derive p st =
     (case discord_interaction st of
        None \<Rightarrow> None
      | Some payload \<Rightarrow>
          if \<not> js_truthy payload then None
          else Some (new_DiscordHelper (p_botToken p) (p_applicationId p) (Some payload) (p_logger p)))"

text \<open>
  One request through the two stages, in the order of the framework's life cycle: the
  request hook runs first, and a value it returns is the response and ends the request; the
  derive stage runs only when the hook returned nothing. The result is the hook's answer, the
  router handed to the route (if one was built) and the store afterwards.
\<close>

definition serve ::
  "plugin \<Rightarrow> collaborators \<Rightarrow> string \<Rightarrow> request \<Rightarrow> store \<Rightarrow>
   hook_result \<times> json DiscordHelper option \<times> store" where
  "serve p env rid req st =
     (case onRequest (p_publicKey p) env rid req st of
        (Continue, st', ev) \<Rightarrow> (Continue, derive p st', st')
      | (res, st', ev) \<Rightarrow> (res, None, st'))"

text \<open>The calls of the collaborators in a run of the hook.\<close>

fun body_reads :: "event list \<Rightarrow> nat" where
  "body_reads [] = 0"
| "body_reads (Read_body # ev) = Suc (body_reads ev)"
| "body_reads (x # ev) = body_reads ev"

fun verifier_calls :: "event list \<Rightarrow> nat" where
  "verifier_calls [] = 0"
| "verifier_calls (Verify_key b s t k # ev) = Suc (verifier_calls ev)"
| "verifier_calls (x # ev) = verifier_calls ev"

fun parser_calls :: "event list \<Rightarrow> nat" where
  "parser_calls [] = 0"
| "parser_calls (Parse_json b # ev) = Suc (parser_calls ev)"
| "parser_calls (x # ev) = parser_calls ev"

subsection \<open>Concrete inputs\<close>

text \<open>Interactions, callbacks, platforms and requests on which the theorems below are
  evaluated.\<close>

definition slash_command :: Interaction where
  "slash_command =
     \<lparr>iid = ''1001'', itype = 2, isRepliable = True, isChatInputCommand = True, isButton = False,
      isStringSelectMenu = False, isUserSelectMenu = False, isRoleSelectMenu = False,
      isChannelSelectMenu = False, isModalSubmit = False, isAutocomplete = False\<rparr>"

definition button_press :: Interaction where
  "button_press =
     \<lparr>iid = ''1002'', itype = 3, isRepliable = True, isChatInputCommand = False, isButton = True,
      isStringSelectMenu = False, isUserSelectMenu = False, isRoleSelectMenu = False,
      isChannelSelectMenu = False, isModalSubmit = False, isAutocomplete = False\<rparr>"

definition autocomplete_request :: Interaction where
  "autocomplete_request =
     \<lparr>iid = ''1003'', itype = 4, isRepliable = False, isChatInputCommand = False, isButton = False,
      isStringSelectMenu = False, isUserSelectMenu = False, isRoleSelectMenu = False,
      isChannelSelectMenu = False, isModalSubmit = False, isAutocomplete = True\<rparr>"

definition quiet_callback :: callback where
  "quiet_callback i = Returns None"

definition resolving_callback :: callback where
  "resolving_callback i = Returns (Some Fulfilled)"

definition rejecting_callback :: callback where
  "rejecting_callback i = Returns (Some (Rejected_at 0 (Error_object ''rejected'')))"

definition throwing_callback :: callback where
  "throwing_callback i = Throws (Error_object ''thrown'')"

definition router_of :: "Interaction \<Rightarrow> (event_key \<rightharpoonup> callback list) \<Rightarrow> Interaction DiscordHelper" where
  "router_of i m = (new_DiscordHelper ''token'' ''app'' (Some i) False)\<lparr>handlers := m\<rparr>"

definition stopping_router :: "Interaction DiscordHelper" where
  "stopping_router =
     router_of slash_command [Wildcard \<mapsto> [throwing_callback], Command \<mapsto> [quiet_callback]]"

definition unlogged_router :: "Interaction DiscordHelper" where
  "unlogged_router =
     router_of slash_command [Wildcard \<mapsto> [rejecting_callback], Command \<mapsto> [throwing_callback]]"

definition busy_router :: "Interaction \<Rightarrow> Interaction DiscordHelper" where
  "busy_router i =
     router_of i [Wildcard \<mapsto> [quiet_callback], Command \<mapsto> [resolving_callback, rejecting_callback],
                  Button \<mapsto> [resolving_callback]]"

definition calm_router :: "Interaction DiscordHelper" where
  "calm_router =
     router_of slash_command [Wildcard \<mapsto> [quiet_callback], Command \<mapsto> [resolving_callback]]"

definition platform_up :: platform where
  "platform_up meth args = Fulfils ()"

definition platform_down :: platform where
  "platform_down meth args = Rejects (Error_object ''Unknown interaction'')"

definition hello :: message where
  "hello = Message (Some ''Pong!'') None None"

definition signed_headers :: "string \<rightharpoonup> string" where
  "signed_headers = [''x-signature-ed25519'' \<mapsto> ''abcd'', ''x-signature-timestamp'' \<mapsto> ''1700000000'']"

definition ping_text :: string where
  "ping_text = ''{\"type\":1,\"id\":\"7\"}''"

definition ping_request :: request where
  "ping_request = \<lparr>req_method = ''POST'', req_headers = signed_headers, req_text = Fulfils ping_text\<rparr>"

definition unsigned_request :: request where
  "unsigned_request =
     \<lparr>req_method = ''POST'', req_headers = [''x-signature-timestamp'' \<mapsto> ''1700000000''],
      req_text = Fulfils ping_text\<rparr>"

text \<open>A parser that knows the one text above, and three verifiers: one that accepts, one
  that refuses and one that throws.\<close>

definition parse_ping :: "string \<Rightarrow> thrown + json" where
  "parse_ping s =
     (if s = ping_text then Inr (JObj [(''type'', JNum 1), (''id'', JStr ''7'')])
      else Inl (Error_object ''Unexpected token''))"

definition accepting :: collaborators where
  "accepting = \<lparr>verifyKey = (\<lambda>b s t k. Fulfils True), JSON_parse = parse_ping\<rparr>"

definition refusing :: collaborators where
  "refusing = \<lparr>verifyKey = (\<lambda>b s t k. Fulfils False), JSON_parse = parse_ping\<rparr>"

definition faulty :: collaborators where
  "faulty = \<lparr>verifyKey = (\<lambda>b s t k. Rejects (Error_object ''bad key'')), JSON_parse = parse_ping\<rparr>"

definition some_plugin :: plugin where
  "some_plugin = \<lparr>p_publicKey = ''key'', p_botToken = ''token'', p_applicationId = ''app'', p_logger = False\<rparr>"

subsection \<open>Properties of the logger\<close>

lemma split_on_not_Nil: "split_on sep s \<noteq> []"
  by (induction s) (auto split: list.splits)

lemma join_split_on: "join_lines (split_on CHR 0x0A s) = s"
proof (induction s)
  case Nil
  show ?case by simp
next
  case (Cons c cs)
  obtain l ls where sp: "split_on CHR 0x0A cs = l # ls"
    using split_on_not_Nil [of "CHR 0x0A" cs] by (cases "split_on CHR 0x0A cs") auto
  show ?case
  proof (cases "c = CHR 0x0A")
    case True
    with Cons sp show ?thesis by simp
  next
    case False
    with Cons sp show ?thesis by (cases ls) auto
  qed
qed

lemma dump_lines_tree_lines: "dump_lines (tree_lines console_log c n i ls) = ls"
  by (induction ls arbitrary: i) auto

lemma connectors_tree_lines:
  "i + length ls = n \<Longrightarrow>
   connectors (tree_lines f c n i ls) =
     (if ls = [] then [] else replicate (length ls - 1) Branch @ [Terminal])"
proof (induction ls arbitrary: i)
  case Nil
  show ?case by simp
next
  case (Cons l ls)
  show ?case
  proof (cases ls)
    case Nil
    with Cons.prems show ?thesis by simp
  next
    case (Cons m ms)
    from Cons.prems have "Suc i + length ls = n" by simp
    from Cons.IH [OF this] Cons.prems Cons show ?thesis by simp
  qed
qed

lemma dumped_text_logData:
  "dumped_text (logData True s) =
     (if maxDataLength < length s then take maxDataLength s @ truncation_marker else s)"
  by (simp add: dumped_text_def logData_def Let_def dump_lines_tree_lines join_split_on)

lemma dumped_text_log_with_data:
  "is_truthy d \<Longrightarrow>
   dumped_text (log_with_data True f lvl msg (Some d)) = dumped_text (logData True (json_text d))"
  by (cases f) (simp_all add: log_with_data_def dumped_text_def)

lemma dumped_text_error:
  "dumped_text (error True msg (Some (Plain True js))) = dumped_text (logData True js)"
  by (simp add: error_def dumped_text_def)

text \<open>
  C7. When the serialization of a logged value is longer than 5000 characters, the logger's
  data dump prints exactly its first 5000 characters followed by the fixed marker
  (a line feed and \<^verbatim>\<open>... (truncated)\<close>); a serialization of at most 5000 characters is
  printed as it is. The dump is what an enabled logger prints; all lines but the last carry
  the branch connector and the last the terminal one. A disabled logger prints nothing. The
  dump of a truthy value attached to \<^verbatim>\<open>info\<close>, \<^verbatim>\<open>success\<close>, \<^verbatim>\<open>warn\<close> or \<^verbatim>\<open>debug\<close>, and
  of a truthy value other than an \<^verbatim>\<open>Error\<close> given to \<^verbatim>\<open>error\<close>, is this dump of its
  serialization.
\<close>

theorem logData_truncates_at_5000:
  "(5000 < length s \<longrightarrow>
      dumped_text (logData True s) = take 5000 s @ ''\<newline>... (truncated)'') \<and>
   (length s \<le> 5000 \<longrightarrow> dumped_text (logData True s) = s) \<and>
   (\<exists>n. connectors (logData True s) = replicate n Branch @ [Terminal]) \<and>
   logData False s = [] \<and>
   (is_truthy d \<longrightarrow>
      dumped_text (info True msg (Some d)) = dumped_text (logData True (json_text d)) \<and>
      dumped_text (success True msg (Some d)) = dumped_text (logData True (json_text d)) \<and>
      dumped_text (warn True msg (Some d)) = dumped_text (logData True (json_text d)) \<and>
      dumped_text (debug True msg (Some d)) = dumped_text (logData True (json_text d))) \<and>
   dumped_text (error True msg (Some (Plain True s))) = dumped_text (logData True s)"
proof -
  have "\<exists>n. connectors (logData True s) = replicate n Branch @ [Terminal]"
  proof -
    define ls where
      "ls = split_on CHR 0x0A
              (if length s > maxDataLength then take maxDataLength s @ truncation_marker else s)"
    have ne: "ls \<noteq> []" by (simp add: ls_def split_on_not_Nil)
    have "connectors (logData True s) = connectors (tree_lines console_log dim (length ls) 0 ls)"
      by (simp add: logData_def Let_def ls_def)
    also have "\<dots> = replicate (length ls - 1) Branch @ [Terminal]"
      using connectors_tree_lines [of 0 ls "length ls" console_log dim] ne by simp
    finally show ?thesis by blast
  qed
  moreover have "logData False s = []" by (simp add: logData_def)
  moreover have "is_truthy d \<longrightarrow>
      dumped_text (info True msg (Some d)) = dumped_text (logData True (json_text d)) \<and>
      dumped_text (success True msg (Some d)) = dumped_text (logData True (json_text d)) \<and>
      dumped_text (warn True msg (Some d)) = dumped_text (logData True (json_text d)) \<and>
      dumped_text (debug True msg (Some d)) = dumped_text (logData True (json_text d))"
    by (simp add: info_def success_def warn_def debug_def dumped_text_log_with_data)
  moreover note dumped_text_error [of msg s]
  ultimately show ?thesis
    using dumped_text_logData [of s]
    by (simp add: maxDataLength_def truncation_marker_def)
qed

theorem logData_truncates_at_5000_witness:
  "dumped_text (logData True (replicate 5001 CHR ''x'')) =
     replicate 5000 CHR ''x'' @ ''\<newline>... (truncated)'' \<and>
   dumped_text (logData True ''{}'') = ''{}'' \<and>
   dumped_text (info True ''m'' (Some (Plain True ''{}''))) = ''{}''"
  using logData_truncates_at_5000 [where s = "replicate 5001 CHR ''x''"]
        logData_truncates_at_5000 [where s = "''{}''" and d = "Plain True ''{}''" and msg = "''m''"]
  by simp

subsection \<open>Plugin construction\<close>

lemma discord_refuses:
  assumes "absent_or_empty (publicKey opts) \<or> absent_or_empty (botToken opts) \<or>
           absent_or_empty (applicationId opts)"
  shows "\<exists>e f. discord opts = Inl e \<and> e_class e = ConfigurationError \<and>
           e_code e = Some ''INVALID_CONFIGURATION'' \<and> e_field e = Some f \<and>
           ((f = ''publicKey'' \<and> absent_or_empty (publicKey opts)) \<or>
            (f = ''botToken'' \<and> absent_or_empty (botToken opts)) \<or>
            (f = ''applicationId'' \<and> absent_or_empty (applicationId opts)))"
  using assms
  by (auto simp: discord_def absent_or_empty_def new_ConfigurationError_def new_DiscordError_def
      split: option.splits)

lemma discord_accepts:
  assumes "\<not> absent_or_empty (publicKey opts)" and "\<not> absent_or_empty (botToken opts)"
      and "\<not> absent_or_empty (applicationId opts)"
  shows "\<exists>p. discord opts = Inr p \<and> publicKey opts = Some (p_publicKey p) \<and>
           botToken opts = Some (p_botToken p) \<and> applicationId opts = Some (p_applicationId p) \<and>
           p_logger p = (verbose opts = Some True)"
  using assms by (auto simp: discord_def absent_or_empty_def split: option.splits)

text \<open>
  C8. If one of the three required fields (public key, bot token, application id) is absent
  or empty, construction returns no plugin: it throws a \<^verbatim>\<open>ConfigurationError\<close> whose
  \<^verbatim>\<open>field\<close> names a field that is missing. With the three present it returns the plugin, and
  the logger is enabled only if \<^verbatim>\<open>verbose\<close> is given as true (so it is off when omitted).
\<close>

theorem discord_validates_configuration:
  "(absent_or_empty (publicKey opts) \<or> absent_or_empty (botToken opts) \<or>
    absent_or_empty (applicationId opts) \<longrightarrow>
      (\<exists>e f. discord opts = Inl e \<and> e_class e = ConfigurationError \<and>
         e_code e = Some ''INVALID_CONFIGURATION'' \<and> e_field e = Some f \<and>
         ((f = ''publicKey'' \<and> absent_or_empty (publicKey opts)) \<or>
          (f = ''botToken'' \<and> absent_or_empty (botToken opts)) \<or>
          (f = ''applicationId'' \<and> absent_or_empty (applicationId opts))))) \<and>
   (\<not> absent_or_empty (publicKey opts) \<and> \<not> absent_or_empty (botToken opts) \<and>
    \<not> absent_or_empty (applicationId opts) \<longrightarrow>
      (\<exists>p. discord opts = Inr p \<and> publicKey opts = Some (p_publicKey p) \<and>
         botToken opts = Some (p_botToken p) \<and> applicationId opts = Some (p_applicationId p) \<and>
         p_logger p = (verbose opts = Some True) \<and> (verbose opts = None \<longrightarrow> \<not> p_logger p)))"
proof (intro conjI impI)
  assume "absent_or_empty (publicKey opts) \<or> absent_or_empty (botToken opts) \<or>
          absent_or_empty (applicationId opts)"
  then show "\<exists>e f. discord opts = Inl e \<and> e_class e = ConfigurationError \<and>
         e_code e = Some ''INVALID_CONFIGURATION'' \<and> e_field e = Some f \<and>
         ((f = ''publicKey'' \<and> absent_or_empty (publicKey opts)) \<or>
          (f = ''botToken'' \<and> absent_or_empty (botToken opts)) \<or>
          (f = ''applicationId'' \<and> absent_or_empty (applicationId opts)))"
    by (rule discord_refuses)
next
  assume "\<not> absent_or_empty (publicKey opts) \<and> \<not> absent_or_empty (botToken opts) \<and>
          \<not> absent_or_empty (applicationId opts)"
  then obtain p where "discord opts = Inr p \<and> publicKey opts = Some (p_publicKey p) \<and>
           botToken opts = Some (p_botToken p) \<and> applicationId opts = Some (p_applicationId p) \<and>
           p_logger p = (verbose opts = Some True)"
    using discord_accepts [of opts] by blast
  then show "\<exists>p. discord opts = Inr p \<and> publicKey opts = Some (p_publicKey p) \<and>
         botToken opts = Some (p_botToken p) \<and> applicationId opts = Some (p_applicationId p) \<and>
         p_logger p = (verbose opts = Some True) \<and> (verbose opts = None \<longrightarrow> \<not> p_logger p)"
    by auto
qed

theorem discord_validates_configuration_witness:
  "(\<exists>e. discord \<lparr>publicKey = Some ''key'', botToken = Some [], applicationId = None, verbose = None\<rparr> = Inl e \<and>
        e_class e = ConfigurationError \<and> e_field e = Some ''botToken'') \<and>
   (\<exists>p. discord \<lparr>publicKey = Some ''key'', botToken = Some ''token'', applicationId = Some ''app'',
                  verbose = None\<rparr> = Inr p \<and> \<not> p_logger p)"
proof -
  let ?bad = "\<lparr>publicKey = Some ''key'', botToken = Some [], applicationId = None, verbose = None\<rparr>"
  let ?good = "\<lparr>publicKey = Some ''key'', botToken = Some ''token'', applicationId = Some ''app'',
                verbose = None\<rparr>"
  have b: "absent_or_empty (publicKey ?bad) \<or> absent_or_empty (botToken ?bad) \<or>
           absent_or_empty (applicationId ?bad)"
    by (simp add: absent_or_empty_def)
  have g: "\<not> absent_or_empty (publicKey ?good) \<and> \<not> absent_or_empty (botToken ?good) \<and>
           \<not> absent_or_empty (applicationId ?good)"
    by (simp add: absent_or_empty_def)
  from discord_validates_configuration [of ?bad] b
  obtain e f where e: "discord ?bad = Inl e" "e_class e = ConfigurationError" "e_field e = Some f"
    by blast
  have "discord ?bad = Inl (new_ConfigurationError
          ''botToken is required. Get it from Discord Developer Portal.'' (Some ''botToken''))"
    by (simp add: discord_def)
  with e(1) have "e = new_ConfigurationError
          ''botToken is required. Get it from Discord Developer Portal.'' (Some ''botToken'')"
    by simp
  then have "e_field e = Some ''botToken''"
    by (simp add: new_ConfigurationError_def new_DiscordError_def)
  with e have 1: "\<exists>e. discord ?bad = Inl e \<and> e_class e = ConfigurationError \<and>
                     e_field e = Some ''botToken''"
    by blast
  from discord_validates_configuration [of ?good] g
  have 2: "\<exists>p. discord ?good = Inr p \<and> \<not> p_logger p"
    by auto
  from 1 2 show ?thesis by blast
qed

subsection \<open>The webhook hook\<close>

lemma get_prop_type_then_id:
  "get_prop payload ''type'' = Inr (Some v) \<Longrightarrow> \<exists>w. get_prop payload ''id'' = Inr w"
  by (cases payload) auto

lemma parse_and_store_ping:
  assumes "JSON_parse env b = Inr payload" and "get_prop payload ''type'' = Inr (Some (JNum 1))"
  shows "\<exists>ev. parse_and_store env b st =
           (Responded \<lparr>status = 200, body = JObj [(''type'', JNum 1)]\<rparr>, st, ev)"
proof -
  obtain w where "get_prop payload ''id'' = Inr w"
    using get_prop_type_then_id [OF assms(2)] by blast
  with assms show ?thesis by (simp add: parse_and_store_def)
qed

lemma onRequest_ping:
  assumes "req_method req = ''POST''"
      and "req_headers req ''x-signature-ed25519'' = Some sg" and "sg \<noteq> []"
      and "req_headers req ''x-signature-timestamp'' = Some ts" and "ts \<noteq> []"
      and "req_text req = Fulfils b"
      and "verifyKey env b sg ts pk = Fulfils True"
      and "JSON_parse env b = Inr payload"
      and "get_prop payload ''type'' = Inr (Some (JNum 1))"
  shows "\<exists>ev. onRequest pk env rid req st =
           (Responded \<lparr>status = 200, body = JObj [(''type'', JNum 1)]\<rparr>, st, ev)"
proof -
  obtain ev where "parse_and_store env b st =
           (Responded \<lparr>status = 200, body = JObj [(''type'', JNum 1)]\<rparr>, st, ev)"
    using parse_and_store_ping [OF assms(8,9)] by blast
  with assms show ?thesis
    by (simp add: onRequest_def header_missing_def verifyDiscordSignature_def)
qed

lemma serve_responded:
  "onRequest (p_publicKey p) env rid req st = (Responded r, st', ev) \<Longrightarrow>
   serve p env rid req st = (Responded r, None, st')"
  by (simp add: serve_def)

lemma onRequest_missing:
  assumes "req_method req = ''POST''"
      and "req_headers req ''x-signature-ed25519'' = None \<or>
           req_headers req ''x-signature-timestamp'' = None"
  shows "onRequest pk env rid req st =
           (Responded \<lparr>status = 401, body = JObj [(''error'', JStr ''Missing signature headers'')]\<rparr>, st,
            [Logger_call m_section (''Discord Interaction ['' @ rid @ '']'') None,
             Logger_call m_warn ''Request ignored: Missing Discord signature headers'' None])"
  using assms by (auto simp: onRequest_def header_missing_def error_body_def)

lemma onRequest_invalid:
  assumes "req_method req = ''POST''"
      and "req_headers req ''x-signature-ed25519'' = Some sg" and "sg \<noteq> []"
      and "req_headers req ''x-signature-timestamp'' = Some ts" and "ts \<noteq> []"
      and "req_text req = Fulfils b"
      and "verifyDiscordSignature env b sg ts pk = Some False"
  shows "\<exists>ev. onRequest pk env rid req st =
           (Responded \<lparr>status = 401, body = JObj [(''error'', JStr ''Invalid signature'')]\<rparr>, st, ev) \<and>
           parser_calls ev = 0"
  using assms by (simp add: onRequest_def header_missing_def error_body_def)

text \<open>
  C2. A POST request with both signature headers, whose body is read, passes the verifier
  and parses to a value whose \<^verbatim>\<open>type\<close> is the number 1, is answered with status 200 and the
  body \<^verbatim>\<open>{type: 1}\<close>, whatever else the payload holds. The hook leaves the store as it was,
  and the request ends in the hook: no router is built for it.
\<close>

theorem ping_is_answered_in_the_hook:
  assumes "req_method req = ''POST''"
      and "req_headers req ''x-signature-ed25519'' = Some sg" and "sg \<noteq> []"
      and "req_headers req ''x-signature-timestamp'' = Some ts" and "ts \<noteq> []"
      and "req_text req = Fulfils b"
      and "verifyKey env b sg ts (p_publicKey p) = Fulfils True"
      and "JSON_parse env b = Inr payload"
      and "get_prop payload ''type'' = Inr (Some (JNum 1))"
  shows "fst (onRequest (p_publicKey p) env rid req st) =
           Responded \<lparr>status = 200, body = JObj [(''type'', JNum 1)]\<rparr> \<and>
         fst (snd (onRequest (p_publicKey p) env rid req st)) = st \<and>
         serve p env rid req st =
           (Responded \<lparr>status = 200, body = JObj [(''type'', JNum 1)]\<rparr>, None, st)"
proof -
  obtain ev where h: "onRequest (p_publicKey p) env rid req st =
           (Responded \<lparr>status = 200, body = JObj [(''type'', JNum 1)]\<rparr>, st, ev)"
    using onRequest_ping [OF assms] by blast
  from h serve_responded [OF h] show ?thesis by simp
qed

theorem ping_is_answered_in_the_hook_witness:
  "serve some_plugin accepting ''r1'' ping_request
     \<lparr>discord_interaction = Some (JObj [(''type'', JNum 2)]), discord_response = None\<rparr> =
     (Responded \<lparr>status = 200, body = JObj [(''type'', JNum 1)]\<rparr>, None,
      \<lparr>discord_interaction = Some (JObj [(''type'', JNum 2)]), discord_response = None\<rparr>)"
proof -
  have 1: "req_method ping_request = ''POST''" by (simp add: ping_request_def)
  have 2: "req_headers ping_request ''x-signature-ed25519'' = Some ''abcd''"
    by (simp add: ping_request_def signed_headers_def)
  have 3: "req_headers ping_request ''x-signature-timestamp'' = Some ''1700000000''"
    by (simp add: ping_request_def signed_headers_def)
  have 4: "req_text ping_request = Fulfils ping_text" by (simp add: ping_request_def)
  have 5: "verifyKey accepting ping_text ''abcd'' ''1700000000'' (p_publicKey some_plugin) = Fulfils True"
    by (simp add: accepting_def)
  have 6: "JSON_parse accepting ping_text = Inr (JObj [(''type'', JNum 1), (''id'', JStr ''7'')])"
    by (simp add: accepting_def parse_ping_def)
  have 7: "get_prop (JObj [(''type'', JNum 1), (''id'', JStr ''7'')]) ''type'' = Inr (Some (JNum 1))"
    by simp
  show ?thesis
    using ping_is_answered_in_the_hook [OF 1 2 _ 3 _ 4 5 6 7] by simp
qed

text \<open>
  C4. A POST request that lacks the signature header or the timestamp header is answered with
  status 401 and the body \<^verbatim>\<open>{error: "Missing signature headers"}\<close>. The hook does not read
  the body, calls neither the verifier nor the parser and leaves the store as it was; the
  request ends in the hook, so no router is built for it, and the derive stage would build
  none from a store that held no interaction before.
\<close>

theorem missing_headers_are_refused:
  assumes "req_method req = ''POST''"
      and "req_headers req ''x-signature-ed25519'' = None \<or>
           req_headers req ''x-signature-timestamp'' = None"
  shows "fst (onRequest (p_publicKey p) env rid req st) =
           Responded \<lparr>status = 401, body = JObj [(''error'', JStr ''Missing signature headers'')]\<rparr> \<and>
         fst (snd (onRequest (p_publicKey p) env rid req st)) = st \<and>
         body_reads (snd (snd (onRequest (p_publicKey p) env rid req st))) = 0 \<and>
         verifier_calls (snd (snd (onRequest (p_publicKey p) env rid req st))) = 0 \<and>
         parser_calls (snd (snd (onRequest (p_publicKey p) env rid req st))) = 0 \<and>
         serve p env rid req st =
           (Responded \<lparr>status = 401, body = JObj [(''error'', JStr ''Missing signature headers'')]\<rparr>,
            None, st) \<and>
         (discord_interaction st = None \<longrightarrow>
            derive p (fst (snd (onRequest (p_publicKey p) env rid req st))) = None)"
proof -
  note h = onRequest_missing [OF assms, of "p_publicKey p" env rid st]
  from h serve_responded [OF h] show ?thesis by (simp add: derive_def)
qed

theorem missing_headers_are_refused_witness:
  "serve some_plugin accepting ''r2'' unsigned_request initial_store =
     (Responded \<lparr>status = 401, body = JObj [(''error'', JStr ''Missing signature headers'')]\<rparr>,
      None, initial_store) \<and>
   body_reads (snd (snd (onRequest (p_publicKey some_plugin) accepting ''r2'' unsigned_request initial_store))) = 0 \<and>
   derive some_plugin (fst (snd (onRequest (p_publicKey some_plugin) accepting ''r2'' unsigned_request initial_store))) = None"
proof -
  have 1: "req_method unsigned_request = ''POST''" by (simp add: unsigned_request_def)
  have 2: "req_headers unsigned_request ''x-signature-ed25519'' = None \<or>
           req_headers unsigned_request ''x-signature-timestamp'' = None"
    by (simp add: unsigned_request_def)
  have 3: "discord_interaction initial_store = None" by (simp add: initial_store_def)
  show ?thesis
    using missing_headers_are_refused [OF 1 2, of some_plugin accepting "''r2''" initial_store] 3
    by (simp add: derive_def)
qed

text \<open>
  C5. A POST request with both headers whose body is read and for which the verifier
  answers false is answered with status 401 and the body \<^verbatim>\<open>{error: "Invalid signature"}\<close>,
  whatever the parser would make of the body: the parser is not called. The hook leaves the
  store as it was (it stores no interaction), and no router is built.
\<close>

theorem failed_verification_is_refused:
  assumes "req_method req = ''POST''"
      and "req_headers req ''x-signature-ed25519'' = Some sg" and "sg \<noteq> []"
      and "req_headers req ''x-signature-timestamp'' = Some ts" and "ts \<noteq> []"
      and "req_text req = Fulfils b"
      and "verifyKey env b sg ts (p_publicKey p) = Fulfils False"
  shows "fst (onRequest (p_publicKey p) env rid req st) =
           Responded \<lparr>status = 401, body = JObj [(''error'', JStr ''Invalid signature'')]\<rparr> \<and>
         fst (snd (onRequest (p_publicKey p) env rid req st)) = st \<and>
         parser_calls (snd (snd (onRequest (p_publicKey p) env rid req st))) = 0 \<and>
         serve p env rid req st =
           (Responded \<lparr>status = 401, body = JObj [(''error'', JStr ''Invalid signature'')]\<rparr>, None, st)"
proof -
  have v: "verifyDiscordSignature env b sg ts (p_publicKey p) = Some False"
    using assms(7) by (simp add: verifyDiscordSignature_def)
  obtain ev where h: "onRequest (p_publicKey p) env rid req st =
      (Responded \<lparr>status = 401, body = JObj [(''error'', JStr ''Invalid signature'')]\<rparr>, st, ev)"
    and n: "parser_calls ev = 0"
    using onRequest_invalid [OF assms(1-6) v] by blast
  from h n serve_responded [OF h] show ?thesis by simp
qed

theorem failed_verification_is_refused_witness:
  "serve some_plugin refusing ''r3'' ping_request initial_store =
     (Responded \<lparr>status = 401, body = JObj [(''error'', JStr ''Invalid signature'')]\<rparr>, None,
      initial_store)"
proof -
  have 1: "req_method ping_request = ''POST''" by (simp add: ping_request_def)
  have 2: "req_headers ping_request ''x-signature-ed25519'' = Some ''abcd''"
    by (simp add: ping_request_def signed_headers_def)
  have 3: "req_headers ping_request ''x-signature-timestamp'' = Some ''1700000000''"
    by (simp add: ping_request_def signed_headers_def)
  have 4: "req_text ping_request = Fulfils ping_text" by (simp add: ping_request_def)
  have 5: "verifyKey refusing ping_text ''abcd'' ''1700000000'' (p_publicKey some_plugin) = Fulfils False"
    by (simp add: refusing_def)
  show ?thesis
    using failed_verification_is_refused [OF 1 2 _ 3 _ 4 5] by simp
qed

text \<open>
  C10. When the verification primitive throws (or its promise rejects) instead of answering,
  \<^verbatim>\<open>verifyDiscordSignature\<close> answers false; the hook then answers 401 with
  \<^verbatim>\<open>{error: "Invalid signature"}\<close>: the fault ends as a response of the hook, not as an
  exception of it.
\<close>

theorem verifier_fault_is_a_refusal:
  assumes "verifyKey env b sg ts (p_publicKey p) = Rejects e"
  shows "verifyDiscordSignature env b sg ts (p_publicKey p) = Some False \<and>
         (req_method req = ''POST'' \<and>
          req_headers req ''x-signature-ed25519'' = Some sg \<and> sg \<noteq> [] \<and>
          req_headers req ''x-signature-timestamp'' = Some ts \<and> ts \<noteq> [] \<and>
          req_text req = Fulfils b \<longrightarrow>
            fst (onRequest (p_publicKey p) env rid req st) =
              Responded \<lparr>status = 401, body = JObj [(''error'', JStr ''Invalid signature'')]\<rparr> \<and>
            fst (snd (onRequest (p_publicKey p) env rid req st)) = st)"
proof -
  have v: "verifyDiscordSignature env b sg ts (p_publicKey p) = Some False"
    using assms by (simp add: verifyDiscordSignature_def)
  show ?thesis
  proof (intro conjI impI)
    show "verifyDiscordSignature env b sg ts (p_publicKey p) = Some False" by (rule v)
  next
    assume a: "req_method req = ''POST'' \<and>
          req_headers req ''x-signature-ed25519'' = Some sg \<and> sg \<noteq> [] \<and>
          req_headers req ''x-signature-timestamp'' = Some ts \<and> ts \<noteq> [] \<and>
          req_text req = Fulfils b"
    then obtain ev where h: "onRequest (p_publicKey p) env rid req st =
        (Responded \<lparr>status = 401, body = JObj [(''error'', JStr ''Invalid signature'')]\<rparr>, st, ev)"
      using onRequest_invalid [of req sg ts b env "p_publicKey p" rid st] v by blast
    then show "fst (onRequest (p_publicKey p) env rid req st) =
              Responded \<lparr>status = 401, body = JObj [(''error'', JStr ''Invalid signature'')]\<rparr>"
      by simp
    from h show "fst (snd (onRequest (p_publicKey p) env rid req st)) = st" by simp
  qed
qed

theorem verifier_fault_is_a_refusal_witness:
  "verifyDiscordSignature faulty ping_text ''abcd'' ''1700000000'' (p_publicKey some_plugin) = Some False \<and>
   fst (onRequest (p_publicKey some_plugin) faulty ''r4'' ping_request initial_store) =
     Responded \<lparr>status = 401, body = JObj [(''error'', JStr ''Invalid signature'')]\<rparr>"
proof -
  have 0: "verifyKey faulty ping_text ''abcd'' ''1700000000'' (p_publicKey some_plugin) =
             Rejects (Error_object ''bad key'')"
    by (simp add: faulty_def)
  have 1: "req_method ping_request = ''POST'' \<and>
          req_headers ping_request ''x-signature-ed25519'' = Some ''abcd'' \<and> ''abcd'' \<noteq> [] \<and>
          req_headers ping_request ''x-signature-timestamp'' = Some ''1700000000'' \<and>
          ''1700000000'' \<noteq> [] \<and>
          req_text ping_request = Fulfils ping_text"
    by (simp add: ping_request_def signed_headers_def)
  show ?thesis
    using verifier_fault_is_a_refusal [OF 0, of ping_request "''r4''" initial_store] 1 by blast
qed

subsection \<open>Dispatch: which callbacks handle calls\<close>

lemma invoked_append: "invoked (a @ b) = invoked a @ invoked b"
  by (induction a rule: invoked.induct) auto

lemma invoked_map: "invoked (map Invoked fs) = fs"
  by (induction fs) auto

lemma logger_calls_append: "logger_calls lm (a @ b) = logger_calls lm a @ logger_calls lm b"
  by (induction a rule: logger_calls.induct) auto

lemma logger_calls_map_Invoked: "logger_calls lm (map Invoked fs) = []"
  by (induction fs) auto

lemma invoke_all_returns:
  "\<forall>f\<in>set fs. \<not> throws_sync f i \<Longrightarrow>
   \<exists>vs. invoke_all fs i = (map Invoked fs, vs, None) \<and> map Returns vs = map (\<lambda>f. f i) fs"
  by (induction fs) (auto simp: throws_sync_def split: callback_result.splits)

lemma invoke_all_prefix:
  "invoke_all fs i = (ev, vs, x) \<Longrightarrow> \<exists>rest. fs = invoked ev @ rest"
  by (induction fs arbitrary: ev vs x) (auto split: callback_result.splits prod.splits)

lemma invoke_all_None:
  "invoke_all fs i = (ev, vs, None) \<Longrightarrow>
   ev = map Invoked fs \<and> (\<forall>f\<in>set fs. \<not> throws_sync f i)"
  by (induction fs arbitrary: ev vs)
     (auto simp: throws_sync_def split: callback_result.splits prod.splits)

lemma invoke_all_Some:
  "invoke_all fs i = (ev, vs, Some e) \<Longrightarrow> \<exists>f\<in>set fs. f i = Throws e"
  by (induction fs arbitrary: ev vs) (auto split: callback_result.splits prod.splits)

lemma logger_calls_invoke_all:
  "invoke_all fs i = (ev, vs, x) \<Longrightarrow> logger_calls lm ev = []"
  by (induction fs arbitrary: ev vs x) (auto split: callback_result.splits prod.splits)

text \<open>When no collected callback throws, \<^verbatim>\<open>handle\<close> calls them all and ends as
  \<^verbatim>\<open>Promise.all\<close> of the returned values does.\<close>

lemma handle_returns:
  assumes held: "interaction h = Some i"
      and quiet: "\<forall>f\<in>set (collected h i). \<not> throws_sync f i"
  shows "\<exists>ev vs. map Returns vs = map (\<lambda>f. f i) (collected h i) \<and> invoked ev = collected h i \<and>
           logger_calls m_success ev = [] \<and> logger_calls m_error ev = [] \<and>
           handle h t0 t1 =
             (case Promise_all vs of
                Fulfilled \<Rightarrow>
                  (ev @ [Logger_call m_success (fst (success_entry (length (collected h i)) t0 t1))
                           (snd (success_entry (length (collected h i)) t0 t1))], Resolves)
              | Rejected_at t e \<Rightarrow>
                  (ev @ [Logger_call m_error (fst (failure_entry e t0 t1)) (snd (failure_entry e t0 t1))],
                   Rejects_with e)
              | Pending \<Rightarrow> (ev, Stays_pending))"
proof -
  define W where "W = registered h Wildcard"
  define K where "K = (case handlerKey i of None \<Rightarrow> [] | Some k \<Rightarrow> registered h k)"
  have coll: "collected h i = W @ K" by (simp add: collected_def W_def K_def)
  from quiet coll have qW: "\<forall>f\<in>set W. \<not> throws_sync f i" and qK: "\<forall>f\<in>set K. \<not> throws_sync f i"
    by auto
  obtain vs1 where w: "invoke_all W i = (map Invoked W, vs1, None)"
    and v1: "map Returns vs1 = map (\<lambda>f. f i) W"
    using invoke_all_returns [OF qW] by blast
  obtain vs2 where k: "invoke_all K i = (map Invoked K, vs2, None)"
    and v2: "map Returns vs2 = map (\<lambda>f. f i) K"
    using invoke_all_returns [OF qK] by blast
  define ev0 where "ev0 = [Logger_call m_section ''Interaction Handler Execution'' None,
                   Logger_call m_info (''Processing interaction type: '' @ show_nat (itype i)) None]"
  define ev2 where "ev2 = (case handlerKey i of
                           None \<Rightarrow> []
                         | Some k \<Rightarrow>
                             if length K > 0
                             then [Logger_call m_debug
                                     (''Executing '' @ show_nat (length K) @ '' handler(s) for '' @ key_name k)
                                     None]
                             else [])"
  define ev where "ev = ev0 @ map Invoked W @ ev2 @ map Invoked K"
  have inv2: "invoked ev2 = []" and ls2: "logger_calls m_success ev2 = []"
    and le2: "logger_calls m_error ev2 = []"
    by (auto simp: ev2_def split: option.splits)
  have 1: "map Returns (vs1 @ vs2) = map (\<lambda>f. f i) (collected h i)"
    using v1 v2 coll by simp
  have 2: "invoked ev = collected h i"
    by (simp add: ev_def invoked_append invoked_map inv2 coll ev0_def)
  have 3: "logger_calls m_success ev = []" "logger_calls m_error ev = []"
    by (simp_all add: ev_def logger_calls_append logger_calls_map_Invoked ls2 le2 ev0_def)
  have 4: "handle h t0 t1 =
             (case Promise_all (vs1 @ vs2) of
                Fulfilled \<Rightarrow>
                  (ev @ [Logger_call m_success (fst (success_entry (length (collected h i)) t0 t1))
                           (snd (success_entry (length (collected h i)) t0 t1))], Resolves)
              | Rejected_at t e \<Rightarrow>
                  (ev @ [Logger_call m_error (fst (failure_entry e t0 t1)) (snd (failure_entry e t0 t1))],
                   Rejects_with e)
              | Pending \<Rightarrow> (ev, Stays_pending))"
    using held w k
    by (simp add: handle_def Let_def W_def [symmetric] K_def [symmetric] ev_def ev0_def ev2_def
          success_entry_def failure_entry_def coll split: promise.splits)
  from 1 2 3 4 show ?thesis by blast
qed

text \<open>When a collected callback throws, \<^verbatim>\<open>handle\<close> ends there: its promise rejects with what
  was thrown, the callbacks after that one are not called, and neither closing entry is
  logged.\<close>

lemma handle_throws:
  assumes held: "interaction h = Some i"
      and loud: "\<exists>f\<in>set (collected h i). throws_sync f i"
  shows "\<exists>ev e. handle h t0 t1 = (ev, Rejects_with e) \<and>
           logger_calls m_success ev = [] \<and> logger_calls m_error ev = [] \<and>
           (\<exists>f\<in>set (collected h i). f i = Throws e) \<and>
           (\<exists>rest. collected h i = invoked ev @ rest)"
proof -
  define W where "W = registered h Wildcard"
  define K where "K = (case handlerKey i of None \<Rightarrow> [] | Some k \<Rightarrow> registered h k)"
  have coll: "collected h i = W @ K" by (simp add: collected_def W_def K_def)
  define ev0 where "ev0 = [Logger_call m_section ''Interaction Handler Execution'' None,
                   Logger_call m_info (''Processing interaction type: '' @ show_nat (itype i)) None]"
  define ev2 where "ev2 = (case handlerKey i of
                           None \<Rightarrow> []
                         | Some k \<Rightarrow>
                             if length K > 0
                             then [Logger_call m_debug
                                     (''Executing '' @ show_nat (length K) @ '' handler(s) for '' @ key_name k)
                                     None]
                             else [])"
  have inv2: "invoked ev2 = []" and ls2: "logger_calls m_success ev2 = []"
    and le2: "logger_calls m_error ev2 = []"
    by (auto simp: ev2_def split: option.splits)
  obtain ev1 vs1 x1 where w: "invoke_all W i = (ev1, vs1, x1)" by (cases "invoke_all W i") auto
  show ?thesis
  proof (cases x1)
    case (Some e)
    have h: "handle h t0 t1 = (ev0 @ ev1, Rejects_with e)"
      using held w Some by (simp add: handle_def Let_def W_def [symmetric] ev0_def)
    obtain rest where r: "W = invoked ev1 @ rest" using invoke_all_prefix [OF w] by blast
    have "\<exists>f\<in>set W. f i = Throws e" using invoke_all_Some w Some by blast
    then have a: "\<exists>f\<in>set (collected h i). f i = Throws e" using coll by auto
    have b: "collected h i = invoked (ev0 @ ev1) @ (rest @ K)"
      using r coll by (simp add: invoked_append ev0_def)
    have l: "logger_calls m_success (ev0 @ ev1) = []" "logger_calls m_error (ev0 @ ev1) = []"
      by (simp_all add: logger_calls_append logger_calls_invoke_all [OF w] ev0_def)
    from h a b l show ?thesis by blast
  next
    case None
    note n1 = None
    from invoke_all_None w None have e1: "ev1 = map Invoked W"
      and qW: "\<forall>f\<in>set W. \<not> throws_sync f i"
      by blast+
    obtain ev3 vs2 x2 where k: "invoke_all K i = (ev3, vs2, x2)" by (cases "invoke_all K i") auto
    show ?thesis
    proof (cases x2)
      case None
      with invoke_all_None k have "\<forall>f\<in>set K. \<not> throws_sync f i" by blast
      with qW coll loud show ?thesis by auto
    next
      case (Some e)
      have h: "handle h t0 t1 = (ev0 @ ev1 @ ev2 @ ev3, Rejects_with e)"
        using held w n1 k Some
        by (simp add: handle_def Let_def W_def [symmetric] K_def [symmetric] ev0_def ev2_def)
      obtain rest where r: "K = invoked ev3 @ rest" using invoke_all_prefix [OF k] by blast
      have "\<exists>f\<in>set K. f i = Throws e" using invoke_all_Some k Some by blast
      then have a: "\<exists>f\<in>set (collected h i). f i = Throws e" using coll by auto
      have b: "collected h i = invoked (ev0 @ ev1 @ ev2 @ ev3) @ rest"
        using r coll e1 by (simp add: invoked_append invoked_map inv2 ev0_def)
      have l: "logger_calls m_success (ev0 @ ev1 @ ev2 @ ev3) = []"
              "logger_calls m_error (ev0 @ ev1 @ ev2 @ ev3) = []"
        by (simp_all add: logger_calls_append logger_calls_invoke_all [OF w]
              logger_calls_invoke_all [OF k] ls2 le2 ev0_def)
      from h a b l show ?thesis by blast
    qed
  qed
qed

lemma handle_invokes_prefix:
  assumes "interaction h = Some i"
  shows "\<exists>rest. collected h i = invoked (fst (handle h t0 t1)) @ rest"
proof (cases "\<exists>f\<in>set (collected h i). throws_sync f i")
  case True
  from handle_throws [OF assms True, of t0 t1] show ?thesis by auto
next
  case False
  then have "\<forall>f\<in>set (collected h i). \<not> throws_sync f i" by blast
  from handle_returns [OF assms this, of t0 t1]
  obtain ev vs where "invoked ev = collected h i"
    and "handle h t0 t1 =
             (case Promise_all vs of
                Fulfilled \<Rightarrow>
                  (ev @ [Logger_call m_success (fst (success_entry (length (collected h i)) t0 t1))
                           (snd (success_entry (length (collected h i)) t0 t1))], Resolves)
              | Rejected_at t e \<Rightarrow>
                  (ev @ [Logger_call m_error (fst (failure_entry e t0 t1)) (snd (failure_entry e t0 t1))],
                   Rejects_with e)
              | Pending \<Rightarrow> (ev, Stays_pending))"
    by blast
  then have "invoked (fst (handle h t0 t1)) = collected h i"
    by (cases "Promise_all vs") (simp_all add: invoked_append)
  then show ?thesis by simp
qed

lemma handle_invokes_all:
  assumes "interaction h = Some i" and "\<forall>f\<in>set (collected h i). \<not> throws_sync f i"
  shows "invoked (fst (handle h t0 t1)) = collected h i"
proof -
  from handle_returns [OF assms, of t0 t1]
  obtain ev vs where "invoked ev = collected h i"
    and "handle h t0 t1 =
             (case Promise_all vs of
                Fulfilled \<Rightarrow>
                  (ev @ [Logger_call m_success (fst (success_entry (length (collected h i)) t0 t1))
                           (snd (success_entry (length (collected h i)) t0 t1))], Resolves)
              | Rejected_at t e \<Rightarrow>
                  (ev @ [Logger_call m_error (fst (failure_entry e t0 t1)) (snd (failure_entry e t0 t1))],
                   Rejects_with e)
              | Pending \<Rightarrow> (ev, Stays_pending))"
    by blast
  then show ?thesis
    by (cases "Promise_all vs") (simp_all add: invoked_append)
qed

lemma collected_command:
  "isChatInputCommand i \<Longrightarrow> collected h i = registered h Wildcard @ registered h Command"
  by (simp add: collected_def handlerKey_def)

lemma collected_button:
  "\<not> isChatInputCommand i \<Longrightarrow> isButton i \<Longrightarrow>
   collected h i = registered h Wildcard @ registered h Button"
  by (simp add: collected_def handlerKey_def)

lemma registered_on:
  "registered (fst (on h k f)) k' = (if k' = k then registered h k @ [f] else registered h k')"
  by (auto simp: on_def registered_def Let_def split: option.splits)

text \<open>
  C1, as the code has it. Let a router hold an interaction, with M callbacks registered
  under the wildcard key and N under \<^verbatim>\<open>command\<close>. For an interaction the type guards take
  for a chat-input command, if none of these callbacks throws when it is called,
  \<^verbatim>\<open>handle\<close> calls exactly the M wildcard callbacks and then the N command callbacks:
  N + M calls. For a button, under the same condition, it calls exactly the wildcard
  callbacks and then those registered under \<^verbatim>\<open>button\<close>. Whether or not a callback throws,
  the callbacks called are an initial part of that list (a callback that throws ends the
  dispatch), so for a button they are all wildcard or button registrations and none is
  called for being registered under \<^verbatim>\<open>command\<close>.
\<close>

theorem handle_calls_wildcard_then_category:
  assumes "interaction h = Some i"
  shows "(isChatInputCommand i \<and>
          (\<forall>f\<in>set (registered h Wildcard @ registered h Command). \<not> throws_sync f i) \<longrightarrow>
            invoked (fst (handle h t0 t1)) = registered h Wildcard @ registered h Command \<and>
            length (invoked (fst (handle h t0 t1))) =
              length (registered h Command) + length (registered h Wildcard)) \<and>
         (\<not> isChatInputCommand i \<and> isButton i \<and>
          (\<forall>f\<in>set (registered h Wildcard @ registered h Button). \<not> throws_sync f i) \<longrightarrow>
            invoked (fst (handle h t0 t1)) = registered h Wildcard @ registered h Button) \<and>
         (isChatInputCommand i \<longrightarrow>
            (\<exists>rest. registered h Wildcard @ registered h Command =
                      invoked (fst (handle h t0 t1)) @ rest)) \<and>
         (\<not> isChatInputCommand i \<and> isButton i \<longrightarrow>
            (\<exists>rest. registered h Wildcard @ registered h Button =
                      invoked (fst (handle h t0 t1)) @ rest))"
proof (intro conjI impI)
  assume a: "isChatInputCommand i \<and>
          (\<forall>f\<in>set (registered h Wildcard @ registered h Command). \<not> throws_sync f i)"
  then have c: "collected h i = registered h Wildcard @ registered h Command"
    by (simp add: collected_command)
  with a have "\<forall>f\<in>set (collected h i). \<not> throws_sync f i" by simp
  from handle_invokes_all [OF assms this, of t0 t1] c
  show "invoked (fst (handle h t0 t1)) = registered h Wildcard @ registered h Command" by simp
  then show "length (invoked (fst (handle h t0 t1))) =
              length (registered h Command) + length (registered h Wildcard)" by simp
next
  assume a: "\<not> isChatInputCommand i \<and> isButton i \<and>
          (\<forall>f\<in>set (registered h Wildcard @ registered h Button). \<not> throws_sync f i)"
  then have c: "collected h i = registered h Wildcard @ registered h Button"
    by (simp add: collected_button)
  with a have "\<forall>f\<in>set (collected h i). \<not> throws_sync f i" by simp
  from handle_invokes_all [OF assms this, of t0 t1] c
  show "invoked (fst (handle h t0 t1)) = registered h Wildcard @ registered h Button" by simp
next
  assume "isChatInputCommand i"
  then have "collected h i = registered h Wildcard @ registered h Command"
    by (simp add: collected_command)
  with handle_invokes_prefix [OF assms, of t0 t1]
  show "\<exists>rest. registered h Wildcard @ registered h Command =
                      invoked (fst (handle h t0 t1)) @ rest" by simp
next
  assume "\<not> isChatInputCommand i \<and> isButton i"
  then have "collected h i = registered h Wildcard @ registered h Button"
    by (simp add: collected_button)
  with handle_invokes_prefix [OF assms, of t0 t1]
  show "\<exists>rest. registered h Wildcard @ registered h Button =
                      invoked (fst (handle h t0 t1)) @ rest" by simp
qed

theorem handle_calls_wildcard_then_category_witness:
  "invoked (fst (handle (busy_router slash_command) 0 7)) =
     [quiet_callback, resolving_callback, rejecting_callback] \<and>
   invoked (fst (handle (busy_router button_press) 0 7)) =
     [quiet_callback, resolving_callback]"
proof -
  have r: "registered (busy_router i) Wildcard = [quiet_callback]"
          "registered (busy_router i) Command = [resolving_callback, rejecting_callback]"
          "registered (busy_router i) Button = [resolving_callback]" for i
    by (simp_all add: busy_router_def router_of_def registered_def new_DiscordHelper_def)
  have q: "\<not> throws_sync quiet_callback i" "\<not> throws_sync resolving_callback i"
          "\<not> throws_sync rejecting_callback i" for i
    by (simp_all add: throws_sync_def quiet_callback_def resolving_callback_def
          rejecting_callback_def)
  have 1: "interaction (busy_router i) = Some i" for i
    by (simp add: busy_router_def router_of_def new_DiscordHelper_def)
  have 2: "isChatInputCommand slash_command" by (simp add: slash_command_def)
  have 3: "\<not> isChatInputCommand button_press \<and> isButton button_press"
    by (simp add: button_press_def)
  show ?thesis
    using handle_calls_wildcard_then_category [OF 1 [of slash_command], of 0 7]
          handle_calls_wildcard_then_category [OF 1 [of button_press], of 0 7]
          2 3
    by (simp add: r q)
qed

text \<open>The claim as stated fails where a callback throws: with one wildcard callback that
  throws and one command callback, a chat-input command gets one call, not two.\<close>

theorem handle_calls_wildcard_then_category_counterexample:
  "interaction stopping_router = Some slash_command \<and> isChatInputCommand slash_command \<and>
   length (registered stopping_router Command) = 1 \<and>
   length (registered stopping_router Wildcard) = 1 \<and>
   invoked (fst (handle stopping_router 0 7)) = [throwing_callback] \<and>
   length (invoked (fst (handle stopping_router 0 7))) \<noteq>
     length (registered stopping_router Command) + length (registered stopping_router Wildcard)"
  by (simp add: stopping_router_def router_of_def new_DiscordHelper_def registered_def
        slash_command_def handle_def Let_def throwing_callback_def quiet_callback_def)

subsection \<open>Dispatch: how handle ends and what it logs\<close>

lemma first_rejection_None:
  "(first_rejection vs = None) = (\<forall>t e. Some (Rejected_at t e) \<notin> set vs)"
  by (induction vs rule: first_rejection.induct) (auto split: option.splits prod.splits)

lemma first_rejection_Some:
  "first_rejection vs = Some (t, e) \<Longrightarrow> Some (Rejected_at t e) \<in> set vs"
  by (induction vs arbitrary: t e rule: first_rejection.induct)
     (auto split: option.splits prod.splits if_splits)

lemma Promise_all_Fulfilled:
  "(Promise_all vs = Fulfilled) = (\<forall>v\<in>set vs. v = None \<or> v = Some Fulfilled)"
proof
  assume f: "Promise_all vs = Fulfilled"
  then have n: "first_rejection vs = None" and p: "Some Pending \<notin> set vs"
    by (auto simp: Promise_all_def split: option.splits prod.splits if_splits)
  show "\<forall>v\<in>set vs. v = None \<or> v = Some Fulfilled"
  proof
    fix v assume v: "v \<in> set vs"
    show "v = None \<or> v = Some Fulfilled"
    proof (cases v)
      case None
      then show ?thesis by simp
    next
      case (Some pr)
      with v n p show ?thesis by (cases pr) (auto simp: first_rejection_None)
    qed
  qed
next
  assume a: "\<forall>v\<in>set vs. v = None \<or> v = Some Fulfilled"
  then have "first_rejection vs = None" by (auto simp: first_rejection_None)
  moreover from a have "Some Pending \<notin> set vs" by auto
  ultimately show "Promise_all vs = Fulfilled" by (simp add: Promise_all_def)
qed

lemma first_rejection_least:
  "first_rejection vs = Some (t, e) \<Longrightarrow> Some (Rejected_at t' e') \<in> set vs \<Longrightarrow> t \<le> t'"
proof (induction vs arbitrary: t e rule: first_rejection.induct)
  case (2 t0 e0 vs)
  show ?case
  proof (cases "first_rejection vs")
    case None
    with "2.prems" have "t = t0" by simp
    moreover from None have "Some (Rejected_at t' e') \<notin> set vs"
      by (simp add: first_rejection_None)
    ultimately show ?thesis using "2.prems"(2) by auto
  next
    case (Some p)
    obtain t1 e1 where p: "p = (t1, e1)" by (cases p)
    from "2.IH" Some p have ih: "Some (Rejected_at t' e') \<in> set vs \<Longrightarrow> t1 \<le> t'"
      by simp
    from "2.prems"(1) Some p have t: "t = (if t1 < t0 then t1 else t0)"
      by (simp split: if_splits)
    from "2.prems"(2) have "t' = t0 \<or> Some (Rejected_at t' e') \<in> set vs" by auto
    then show ?thesis using ih t by (auto split: if_splits)
  qed
qed simp_all

lemma Promise_all_Rejected:
  assumes "Some (Rejected_at t e) \<in> set vs"
  shows "\<exists>t' e'. Promise_all vs = Rejected_at t' e' \<and> Some (Rejected_at t' e') \<in> set vs \<and>
           (\<forall>t'' e''. Some (Rejected_at t'' e'') \<in> set vs \<longrightarrow> t' \<le> t'')"
proof -
  from assms have "first_rejection vs \<noteq> None" by (auto simp: first_rejection_None)
  then obtain t' e' where f: "first_rejection vs = Some (t', e')" by (cases "first_rejection vs") auto
  then have "Promise_all vs = Rejected_at t' e'" by (simp add: Promise_all_def)
  with first_rejection_Some [OF f] first_rejection_least [OF f] show ?thesis by blast
qed

lemma returned_values:
  assumes "map Returns vs = map (\<lambda>f. f i) fs"
  shows "(\<forall>f\<in>set fs. settles_well f i) = (\<forall>v\<in>set vs. v = None \<or> v = Some Fulfilled)"
    and "(\<exists>f\<in>set fs. f i = Returns v) = (v \<in> set vs)"
proof -
  have s: "Returns ` set vs = (\<lambda>f. f i) ` set fs"
    using assms by (metis set_map)
  show 2: "(\<exists>f\<in>set fs. f i = Returns v) = (v \<in> set vs)"
  proof
    assume "\<exists>f\<in>set fs. f i = Returns v"
    then obtain f where "f \<in> set fs" "f i = Returns v" by blast
    then have "Returns v \<in> (\<lambda>f. f i) ` set fs" by (metis imageI)
    with s have "Returns v \<in> Returns ` set vs" by simp
    then show "v \<in> set vs" by auto
  next
    assume "v \<in> set vs"
    then have "Returns v \<in> Returns ` set vs" by simp
    with s have "Returns v \<in> (\<lambda>f. f i) ` set fs" by simp
    then show "\<exists>f\<in>set fs. f i = Returns v" by force
  qed
  show "(\<forall>f\<in>set fs. settles_well f i) = (\<forall>v\<in>set vs. v = None \<or> v = Some Fulfilled)"
  proof
    assume a: "\<forall>f\<in>set fs. settles_well f i"
    show "\<forall>v\<in>set vs. v = None \<or> v = Some Fulfilled"
    proof
      fix w assume "w \<in> set vs"
      then have "Returns w \<in> (\<lambda>f. f i) ` set fs" using s by auto
      then obtain f where "f \<in> set fs" "f i = Returns w" by force
      with a show "w = None \<or> w = Some Fulfilled" by (auto simp: settles_well_def)
    qed
  next
    assume a: "\<forall>v\<in>set vs. v = None \<or> v = Some Fulfilled"
    show "\<forall>f\<in>set fs. settles_well f i"
    proof
      fix f assume "f \<in> set fs"
      then have "f i \<in> Returns ` set vs" using s by auto
      then obtain w where "w \<in> set vs" "f i = Returns w" by auto
      with a show "settles_well f i" by (auto simp: settles_well_def)
    qed
  qed
qed

lemma rejects_iff: "rejects f i = (\<exists>t e. f i = Returns (Some (Rejected_at t e)))"
  by (auto simp: rejects_def split: callback_result.splits option.splits promise.splits)

lemma throws_not_settles_well: "throws_sync f i \<Longrightarrow> \<not> settles_well f i"
  by (auto simp: throws_sync_def settles_well_def split: callback_result.splits)

text \<open>
  What \<^verbatim>\<open>handle\<close> does for a held interaction. Whenever the promise of a callback it called
  rejects, its own promise rejects. If every collected callback returns when called and the
  promise of at least one rejects, it rejects with the reason of the earliest rejection, the
  error entry with the duration is handed to the logger and the success entry is not. The
  success entry, with the number of collected callbacks and the duration, is handed to the
  logger exactly when every collected callback returned and what it returned settled well
  (\<^verbatim>\<open>undefined\<close> or a promise that fulfils); \<^verbatim>\<open>handle\<close> resolves in that case.
\<close>

lemma handle_outcome_and_entries:
  assumes "interaction h = Some i"
  shows "((\<exists>f\<in>set (invoked (fst (handle h t0 t1))). rejects f i) \<longrightarrow>
            (\<exists>e. snd (handle h t0 t1) = Rejects_with e)) \<and>
         ((\<forall>f\<in>set (collected h i). \<not> throws_sync f i) \<and> (\<exists>f\<in>set (collected h i). rejects f i) \<longrightarrow>
            (\<exists>t e. (\<exists>f\<in>set (collected h i). f i = Returns (Some (Rejected_at t e))) \<and>
               (\<forall>f\<in>set (collected h i). \<forall>t' e'. f i = Returns (Some (Rejected_at t' e')) \<longrightarrow> t \<le> t') \<and>
               snd (handle h t0 t1) = Rejects_with e \<and>
               logger_calls m_error (fst (handle h t0 t1)) = [failure_entry e t0 t1] \<and>
               logger_calls m_success (fst (handle h t0 t1)) = [])) \<and>
         logger_calls m_success (fst (handle h t0 t1)) =
           (if \<forall>f\<in>set (collected h i). settles_well f i
            then [success_entry (length (collected h i)) t0 t1] else []) \<and>
         ((\<forall>f\<in>set (collected h i). settles_well f i) \<longrightarrow> snd (handle h t0 t1) = Resolves)"
proof (cases "\<exists>f\<in>set (collected h i). throws_sync f i")
  case True
  from handle_throws [OF assms True, of t0 t1]
  obtain ev e where "handle h t0 t1 = (ev, Rejects_with e)" "logger_calls m_success ev = []"
    by blast
  moreover from True have "\<not> (\<forall>f\<in>set (collected h i). settles_well f i)"
    using throws_not_settles_well by blast
  ultimately show ?thesis using True by auto
next
  case False
  then have quiet: "\<forall>f\<in>set (collected h i). \<not> throws_sync f i" by blast
  from handle_returns [OF assms quiet, of t0 t1]
  obtain ev vs where vs: "map Returns vs = map (\<lambda>f. f i) (collected h i)"
    and ls: "logger_calls m_success ev = []" and le: "logger_calls m_error ev = []"
    and h: "handle h t0 t1 =
             (case Promise_all vs of
                Fulfilled \<Rightarrow>
                  (ev @ [Logger_call m_success (fst (success_entry (length (collected h i)) t0 t1))
                           (snd (success_entry (length (collected h i)) t0 t1))], Resolves)
              | Rejected_at t e \<Rightarrow>
                  (ev @ [Logger_call m_error (fst (failure_entry e t0 t1)) (snd (failure_entry e t0 t1))],
                   Rejects_with e)
              | Pending \<Rightarrow> (ev, Stays_pending))"
    by blast
  note rv = returned_values [OF vs]
  have all: "invoked (fst (handle h t0 t1)) = collected h i"
    by (rule handle_invokes_all [OF assms quiet])
  have well: "(\<forall>f\<in>set (collected h i). settles_well f i) = (Promise_all vs = Fulfilled)"
    by (simp add: rv(1) Promise_all_Fulfilled)
  have A: "\<exists>t e. (\<exists>f\<in>set (collected h i). f i = Returns (Some (Rejected_at t e))) \<and>
               (\<forall>f\<in>set (collected h i). \<forall>t' e'. f i = Returns (Some (Rejected_at t' e')) \<longrightarrow> t \<le> t') \<and>
               snd (handle h t0 t1) = Rejects_with e \<and>
               logger_calls m_error (fst (handle h t0 t1)) = [failure_entry e t0 t1] \<and>
               logger_calls m_success (fst (handle h t0 t1)) = []"
    if "\<exists>f\<in>set (collected h i). rejects f i"
  proof -
    from that obtain f t e where "f \<in> set (collected h i)" "f i = Returns (Some (Rejected_at t e))"
      by (auto simp: rejects_iff)
    then have "Some (Rejected_at t e) \<in> set vs" using rv(2) by blast
    from Promise_all_Rejected [OF this]
    obtain t' e' where p: "Promise_all vs = Rejected_at t' e'"
      and m: "Some (Rejected_at t' e') \<in> set vs"
      and least: "\<forall>t'' e''. Some (Rejected_at t'' e'') \<in> set vs \<longrightarrow> t' \<le> t''"
      by blast
    from m have 1: "\<exists>f\<in>set (collected h i). f i = Returns (Some (Rejected_at t' e'))"
      using rv(2) by blast
    have 2: "\<forall>f\<in>set (collected h i). \<forall>t'' e''. f i = Returns (Some (Rejected_at t'' e'')) \<longrightarrow> t' \<le> t''"
      using least rv(2) by blast
    from h p have 3: "snd (handle h t0 t1) = Rejects_with e'"
      and 4: "logger_calls m_error (fst (handle h t0 t1)) = [failure_entry e' t0 t1]"
      and 5: "logger_calls m_success (fst (handle h t0 t1)) = []"
      by (simp_all add: logger_calls_append ls le)
    from 1 2 3 4 5 show ?thesis by blast
  qed
  have B: "logger_calls m_success (fst (handle h t0 t1)) =
           (if \<forall>f\<in>set (collected h i). settles_well f i
            then [success_entry (length (collected h i)) t0 t1] else [])"
    unfolding well using h by (cases "Promise_all vs") (simp_all add: logger_calls_append ls)
  have C: "snd (handle h t0 t1) = Resolves" if "\<forall>f\<in>set (collected h i). settles_well f i"
    using that h by (simp add: well)
  have D: "\<exists>e. snd (handle h t0 t1) = Rejects_with e"
    if "\<exists>f\<in>set (invoked (fst (handle h t0 t1))). rejects f i"
    using A that all by auto
  from A B C D show ?thesis by blast
qed

lemma handle_outcome_and_entries_example:
  "snd (handle (busy_router slash_command) 0 7) = Rejects_with (Error_object ''rejected'') \<and>
   logger_calls m_error (fst (handle (busy_router slash_command) 0 7)) =
     [(''Handler execution failed after 7ms'', Some (Caught (Error_object ''rejected'')))] \<and>
   logger_calls m_success (fst (handle (busy_router slash_command) 0 7)) = [] \<and>
   snd (handle calm_router 0 7) = Resolves \<and>
   logger_calls m_success (fst (handle calm_router 0 7)) =
     [(''All handlers completed successfully'',
       Some (Fields [(''totalHandlers'', Some (JNum 2)), (''duration'', Some (JStr ''7ms''))]))]"
proof -
  have c1: "collected (busy_router slash_command) slash_command =
              [quiet_callback, resolving_callback, rejecting_callback]"
    by (simp add: collected_def busy_router_def router_of_def registered_def new_DiscordHelper_def
          handlerKey_def slash_command_def)
  have c2: "collected calm_router slash_command = [quiet_callback, resolving_callback]"
    by (simp add: collected_def calm_router_def router_of_def registered_def new_DiscordHelper_def
          handlerKey_def slash_command_def)
  have q: "\<not> throws_sync quiet_callback i" "\<not> throws_sync resolving_callback i"
          "\<not> throws_sync rejecting_callback i" "rejects rejecting_callback i"
          "settles_well quiet_callback i" "settles_well resolving_callback i" for i
    by (simp_all add: throws_sync_def rejects_def settles_well_def quiet_callback_def
          resolving_callback_def rejecting_callback_def)
  have r: "rejecting_callback i = Returns (Some (Rejected_at t e)) \<longleftrightarrow>
             t = 0 \<and> e = Error_object ''rejected''"
          "quiet_callback i \<noteq> Returns (Some (Rejected_at t e))"
          "resolving_callback i \<noteq> Returns (Some (Rejected_at t e))" for i t e
    by (auto simp: quiet_callback_def resolving_callback_def rejecting_callback_def)
  have 1: "interaction (busy_router slash_command) = Some slash_command"
    by (simp add: busy_router_def router_of_def new_DiscordHelper_def)
  have 2: "interaction calm_router = Some slash_command"
    by (simp add: calm_router_def router_of_def new_DiscordHelper_def)
  have d: "show_int 7 = ''7''" by (simp add: show_int_def show_nat.simps)
  from handle_outcome_and_entries [OF 1, of 0 7]
  have "\<exists>t e. (t = 0 \<and> e = Error_object ''rejected'') \<and>
               snd (handle (busy_router slash_command) 0 7) = Rejects_with e \<and>
               logger_calls m_error (fst (handle (busy_router slash_command) 0 7)) =
                 [failure_entry e 0 7] \<and>
               logger_calls m_success (fst (handle (busy_router slash_command) 0 7)) = []"
    by (simp add: c1 q r)
  then have a: "snd (handle (busy_router slash_command) 0 7) = Rejects_with (Error_object ''rejected'') \<and>
     logger_calls m_error (fst (handle (busy_router slash_command) 0 7)) =
       [(''Handler execution failed after 7ms'', Some (Caught (Error_object ''rejected'')))] \<and>
     logger_calls m_success (fst (handle (busy_router slash_command) 0 7)) = []"
    by (auto simp: failure_entry_def d)
  from handle_outcome_and_entries [OF 2, of 0 7]
  have b: "snd (handle calm_router 0 7) = Resolves \<and>
     logger_calls m_success (fst (handle calm_router 0 7)) =
       [(''All handlers completed successfully'',
         Some (Fields [(''totalHandlers'', Some (JNum 2)), (''duration'', Some (JStr ''7ms''))]))]"
    by (simp add: c2 q success_entry_def d)
  from a b show ?thesis by blast
qed

text \<open>
  C6. The property: whenever the promise of a callback that \<^verbatim>\<open>handle\<close> called rejects,
  \<^verbatim>\<open>handle\<close> rejects, and on that failure path an error entry with the duration is logged in
  place of the success entry. The code breaks the second half. \<^verbatim>\<open>handle\<close> calls the callbacks
  before its \<^verbatim>\<open>try\<close> block, which holds only \<^verbatim>\<open>await Promise.all(promises)\<close>. On the router
  below, the wildcard callback returns a promise that rejects and the command callback then
  throws in the loop: both callbacks were called, the promise of the first rejects, the
  promise of \<^verbatim>\<open>handle\<close> rejects with what the second threw, and the logger gets neither the
  error entry nor the success entry.
\<close>

theorem handle_skips_the_error_entry_when_a_later_callback_throws:
  "interaction unlogged_router = Some slash_command \<and>
   registered unlogged_router Wildcard = [rejecting_callback] \<and>
   registered unlogged_router Command = [throwing_callback] \<and>
   invoked (fst (handle unlogged_router 0 7)) = [rejecting_callback, throwing_callback] \<and>
   rejecting_callback slash_command = Returns (Some (Rejected_at 0 (Error_object ''rejected''))) \<and>
   throwing_callback slash_command = Throws (Error_object ''thrown'') \<and>
   snd (handle unlogged_router 0 7) = Rejects_with (Error_object ''thrown'') \<and>
   logger_calls m_error (fst (handle unlogged_router 0 7)) = [] \<and>
   logger_calls m_success (fst (handle unlogged_router 0 7)) = []"
  by (simp add: unlogged_router_def router_of_def new_DiscordHelper_def registered_def
        slash_command_def handle_def Let_def handlerKey_def throwing_callback_def
        rejecting_callback_def)

subsection \<open>The reply operations\<close>

lemma platform_calls_append: "platform_calls (a @ b) = platform_calls a @ platform_calls b"
  by (induction a rule: platform_calls.induct) auto

lemma not_repliable_result:
  "not_repliable h i = (h, [Logger_call m_error (e_message (not_repliable_error i)) None],
                        Raised (not_repliable_error i))"
  by (simp add: not_repliable_def Let_def)

lemma platform_try_rejects:
  "pf meth args = Rejects e \<Longrightarrow>
   platform_try h i pf meth args d done_text fail_text t0 t1 =
     (h, [Platform_call meth args,
          Logger_call m_error (e_message (platform_failure fail_text e i)) (Some (Caught e))],
      Raised (platform_failure fail_text e i))"
  by (simp add: platform_try_def Let_def)

lemma platform_try_response:
  "response (fst (platform_try h i pf meth args d done_text fail_text t0 t1)) =
     (case pf meth args of
        Fulfils u \<Rightarrow> (case d of None \<Rightarrow> response h | Some r \<Rightarrow> Some r)
      | Rejects e \<Rightarrow> response h
      | Never \<Rightarrow> response h)"
  by (simp add: platform_try_def Let_def split: awaited.splits option.splits)

lemma platform_try_outcome:
  "snd (snd (platform_try h i pf meth args d done_text fail_text t0 t1)) =
     (case pf meth args of
        Fulfils u \<Rightarrow> Returned
      | Rejects e \<Rightarrow> Raised (platform_failure fail_text e i)
      | Never \<Rightarrow> Hangs)"
  by (simp add: platform_try_def Let_def split: awaited.splits)

lemma with_events_parts:
  "fst (with_events ev r) = fst r"
  "fst (snd (with_events ev r)) = ev @ fst (snd r)"
  "snd (snd (with_events ev r)) = snd (snd r)"
  by (simp_all add: with_events_def split: prod.splits)

lemma error_objects:
  "e_class (not_repliable_error i) = InteractionNotRepliableError"
  "instanceof (not_repliable_error i) DiscordInteractionError"
  "e_interactionType (not_repliable_error i) = InteractionType (itype i)"
  "e_class (platform_failure txt e i) = DiscordInteractionError"
  "e_message (platform_failure txt e i) = txt @ '': '' @ describe e"
  "e_interactionId (platform_failure txt e i) = Some (iid i)"
  "e_interactionType (platform_failure txt e i) = InteractionType (itype i)"
  by (simp_all add: not_repliable_error_def platform_failure_def instanceof_def
        new_InteractionNotRepliableError_def new_DiscordInteractionError_def new_DiscordError_def)

text \<open>
  C3. On an interaction that is not repliable, each of \<^verbatim>\<open>reply\<close>, \<^verbatim>\<open>deferReply\<close>,
  \<^verbatim>\<open>editReply\<close> and \<^verbatim>\<open>followUp\<close> throws an \<^verbatim>\<open>InteractionNotRepliableError\<close> and makes no
  platform call, however the platform would answer. On a repliable interaction whose platform
  call fails with \<open>e\<close>, each throws a \<^verbatim>\<open>DiscordInteractionError\<close> whose message ends with the
  text of \<open>e\<close> and which carries the interaction's id and the name of its type.
\<close>

theorem reply_operations_fail_as_specified:
  "(\<not> isRepliable i \<longrightarrow>
      snd (snd (reply h i m pf t0 t1)) = Raised (not_repliable_error i) \<and>
      platform_calls (fst (snd (reply h i m pf t0 t1))) = [] \<and>
      snd (snd (deferReply h i opts pf t0 t1)) = Raised (not_repliable_error i) \<and>
      platform_calls (fst (snd (deferReply h i opts pf t0 t1))) = [] \<and>
      snd (snd (editReply h i m pf t0 t1)) = Raised (not_repliable_error i) \<and>
      platform_calls (fst (snd (editReply h i m pf t0 t1))) = [] \<and>
      snd (snd (followUp h i m pf t0 t1)) = Raised (not_repliable_error i) \<and>
      platform_calls (fst (snd (followUp h i m pf t0 t1))) = [] \<and>
      e_class (not_repliable_error i) = InteractionNotRepliableError) \<and>
   (isRepliable i \<and> pf p_reply (message_object m) = Rejects e \<longrightarrow>
      snd (snd (reply h i m pf t0 t1)) = Raised (platform_failure ''Failed to send reply'' e i)) \<and>
   (isRepliable i \<and> pf p_deferReply (defer_object opts) = Rejects e \<longrightarrow>
      snd (snd (deferReply h i opts pf t0 t1)) =
        Raised (platform_failure ''Failed to defer reply'' e i)) \<and>
   (isRepliable i \<and> pf p_editReply (edit_object m) = Rejects e \<longrightarrow>
      snd (snd (editReply h i m pf t0 t1)) = Raised (platform_failure ''Failed to edit reply'' e i)) \<and>
   (isRepliable i \<and> pf p_followUp (message_object m) = Rejects e \<longrightarrow>
      snd (snd (followUp h i m pf t0 t1)) =
        Raised (platform_failure ''Failed to send follow-up'' e i)) \<and>
   e_class (platform_failure txt e i) = DiscordInteractionError \<and>
   e_message (platform_failure txt e i) = txt @ '': '' @ describe e \<and>
   e_interactionId (platform_failure txt e i) = Some (iid i) \<and>
   e_interactionType (platform_failure txt e i) = InteractionType (itype i)"
  by (simp add: reply_def deferReply_def editReply_def followUp_def not_repliable_result
        with_events_parts platform_try_outcome error_objects)

theorem reply_operations_fail_as_specified_witness:
  "snd (snd (reply (router_of autocomplete_request Map.empty) autocomplete_request hello
               platform_up 0 7)) =
     Raised (new_InteractionNotRepliableError (Some ''ApplicationCommandAutocomplete'')) \<and>
   platform_calls (fst (snd (reply (router_of autocomplete_request Map.empty) autocomplete_request
                               hello platform_up 0 7))) = [] \<and>
   snd (snd (editReply (router_of slash_command Map.empty) slash_command hello platform_down 0 7)) =
     Raised (new_DiscordInteractionError ''Failed to edit reply: Unknown interaction''
               (Some ''1001'') (Some ''ApplicationCommand''))"
proof -
  have 1: "\<not> isRepliable autocomplete_request" by (simp add: autocomplete_request_def)
  have 2: "isRepliable slash_command \<and>
           platform_down p_editReply (edit_object hello) = Rejects (Error_object ''Unknown interaction'')"
    by (simp add: slash_command_def platform_down_def)
  have 3: "not_repliable_error autocomplete_request =
             new_InteractionNotRepliableError (Some ''ApplicationCommandAutocomplete'')"
    by (simp add: not_repliable_error_def autocomplete_request_def InteractionType_def)
  have 4: "platform_failure ''Failed to edit reply'' (Error_object ''Unknown interaction'') slash_command =
             new_DiscordInteractionError ''Failed to edit reply: Unknown interaction''
               (Some ''1001'') (Some ''ApplicationCommand'')"
    by (simp add: platform_failure_def slash_command_def InteractionType_def)
  from reply_operations_fail_as_specified
         [where i = autocomplete_request and h = "router_of autocomplete_request Map.empty"
            and m = hello and pf = platform_up and ?t0.0 = 0 and ?t1.0 = 7] 1
  have a: "snd (snd (reply (router_of autocomplete_request Map.empty) autocomplete_request hello
               platform_up 0 7)) = Raised (not_repliable_error autocomplete_request) \<and>
     platform_calls (fst (snd (reply (router_of autocomplete_request Map.empty) autocomplete_request
                               hello platform_up 0 7))) = []"
    by blast
  from reply_operations_fail_as_specified
         [where i = slash_command and h = "router_of slash_command Map.empty" and m = hello
            and pf = platform_down and e = "Error_object ''Unknown interaction''"
            and ?t0.0 = 0 and ?t1.0 = 7] 2
  have b: "snd (snd (editReply (router_of slash_command Map.empty) slash_command hello
                       platform_down 0 7)) =
     Raised (platform_failure ''Failed to edit reply'' (Error_object ''Unknown interaction'') slash_command)"
    by blast
  from a b show ?thesis by (simp add: 3 4)
qed

text \<open>
  C9. A call of \<^verbatim>\<open>reply\<close> that returns has set the response record to type 4 with the
  message as data; a call of \<^verbatim>\<open>deferReply\<close> that returns has set it to type 5 with the
  options as data. \<^verbatim>\<open>editReply\<close> and \<^verbatim>\<open>followUp\<close> never change the response record. (A call of
  \<^verbatim>\<open>reply\<close> or \<^verbatim>\<open>deferReply\<close> that does not return leaves it unchanged too.)
\<close>

theorem response_record_is_set_by_reply_and_deferReply_only:
  "(snd (snd (reply h i m pf t0 t1)) = Returned \<longrightarrow>
      response (fst (reply h i m pf t0 t1)) =
        Some \<lparr>r_type = 4, r_data = Some (message_object m)\<rparr>) \<and>
   (snd (snd (deferReply h i opts pf t0 t1)) = Returned \<longrightarrow>
      response (fst (deferReply h i opts pf t0 t1)) =
        Some \<lparr>r_type = 5, r_data = map_option options_object opts\<rparr>) \<and>
   response (fst (editReply h i m pf t0 t1)) = response h \<and>
   response (fst (followUp h i m pf t0 t1)) = response h \<and>
   (snd (snd (reply h i m pf t0 t1)) \<noteq> Returned \<longrightarrow>
      response (fst (reply h i m pf t0 t1)) = response h) \<and>
   (snd (snd (deferReply h i opts pf t0 t1)) \<noteq> Returned \<longrightarrow>
      response (fst (deferReply h i opts pf t0 t1)) = response h)"
  by (auto simp: reply_def deferReply_def editReply_def followUp_def not_repliable_result
        with_events_parts platform_try_outcome platform_try_response
      split: awaited.splits)

theorem response_record_is_set_by_reply_and_deferReply_only_witness:
  "snd (snd (reply (router_of slash_command Map.empty) slash_command hello platform_up 0 7)) = Returned \<and>
   response (fst (reply (router_of slash_command Map.empty) slash_command hello platform_up 0 7)) =
     Some \<lparr>r_type = 4,
           r_data = Some [(''content'', Some (JStr ''Pong!'')), (''embeds'', None), (''ephemeral'', None)]\<rparr> \<and>
   snd (snd (deferReply (router_of slash_command Map.empty) slash_command None platform_up 0 7)) = Returned \<and>
   response (fst (deferReply (router_of slash_command Map.empty) slash_command None platform_up 0 7)) =
     Some \<lparr>r_type = 5, r_data = None\<rparr> \<and>
   snd (snd (editReply (router_of slash_command Map.empty) slash_command hello platform_up 0 7)) = Returned \<and>
   response (fst (editReply (router_of slash_command Map.empty) slash_command hello platform_up 0 7)) = None"
proof -
  have 1: "snd (snd (reply (router_of slash_command Map.empty) slash_command hello platform_up 0 7)) =
             Returned"
    by (simp add: reply_def with_events_parts platform_try_outcome slash_command_def platform_up_def)
  have 2: "snd (snd (deferReply (router_of slash_command Map.empty) slash_command None platform_up 0 7)) =
             Returned"
    by (simp add: deferReply_def with_events_parts platform_try_outcome slash_command_def
          platform_up_def)
  have 3: "snd (snd (editReply (router_of slash_command Map.empty) slash_command hello platform_up 0 7)) =
             Returned"
    by (simp add: editReply_def with_events_parts platform_try_outcome slash_command_def
          platform_up_def)
  have 4: "response (router_of slash_command Map.empty) = None"
    by (simp add: router_of_def new_DiscordHelper_def)
  have 5: "message_object hello = [(''content'', Some (JStr ''Pong!'')), (''embeds'', None), (''ephemeral'', None)]"
    by (simp add: message_object_def hello_def)
  from response_record_is_set_by_reply_and_deferReply_only
         [where h = "router_of slash_command Map.empty" and i = slash_command and m = hello
            and pf = platform_up and ?t0.0 = 0 and ?t1.0 = 7 and opts = None]
       1 2 3 4 5
  show ?thesis by simp
qed

end
